theory Spec2Isabelle
  imports Main
begin

section \<open>The injected connector (packages/connectors/src/injected.ts)\<close>

text \<open>
  The connector is asynchronous and effectful. Its model is sequential: every method is a
  function from the world before the call to an outcome and the world after it. An awaited
  promise either resolves, rejects or never settles, so the outcome of an operation is one
  of \<open>Resolved\<close>, \<open>Rejected\<close> and \<open>Pending\<close>. What the wallet answers, what the viem and
  @wagmi/core helpers compute and which asynchronous signal arrives first are inputs.
\<close>

subsection \<open>Errors and outcomes\<close>

text \<open>
  \<open>ProviderError c oc\<close> is a value thrown by the wallet: \<open>c\<close> is its \<open>code\<close> property and
  \<open>oc\<close> its \<open>data.originalError.code\<close> property, each \<open>None\<close> when absent. \<open>PlainError\<close> is
  \<open>new Error(message)\<close>. \<open>RpcRequestError c oc\<close> is an instance of viem's class of that
  name, with the same two properties. The other constructors are the error classes the
  source constructs; \<open>OtherError\<close> stands for errors of the helper functions.
\<close>

datatype error =
    ProviderError "int option" "int option"
  | RpcRequestError int "int option"
  | ProviderNotFoundError
  | ChainNotConfiguredError
  | UserRejectedRequestError error
  | ResourceUnavailableRpcError error
  | SwitchChainError error
  | PlainError string
  | TypeError
  | OtherError string

text \<open>The constructor of viem's \<open>RpcError\<close>, which the three classes built by the source
  extend, sets \<open>this.code\<close> to the code of the cause when the cause is an
  \<open>RpcRequestError\<close>, and to the static code of the class otherwise.\<close>

fun causeCode :: "error \<Rightarrow> int \<Rightarrow> int" where
  "causeCode (RpcRequestError c oc) static = c"
| "causeCode (ProviderError c oc) static = static"
| "causeCode (UserRejectedRequestError e) static = static"
| "causeCode (ResourceUnavailableRpcError e) static = static"
| "causeCode (SwitchChainError e) static = static"
| "causeCode ProviderNotFoundError static = static"
| "causeCode ChainNotConfiguredError static = static"
| "causeCode (PlainError m) static = static"
| "causeCode TypeError static = static"
| "causeCode (OtherError m) static = static"

text \<open>The \<open>code\<close> property; the static codes of viem's classes are 4001, -32002, 4902.\<close>

fun code :: "error \<Rightarrow> int option" where
  "code (ProviderError c oc) = c"
| "code (RpcRequestError c oc) = Some c"
| "code (UserRejectedRequestError e) = Some (causeCode e 4001)"
| "code (ResourceUnavailableRpcError e) = Some (causeCode e (- 32002))"
| "code (SwitchChainError e) = Some (causeCode e 4902)"
| "code ProviderNotFoundError = None"
| "code ChainNotConfiguredError = None"
| "code (PlainError m) = None"
| "code TypeError = None"
| "code (OtherError m) = None"

text \<open>\<open>error?.data?.originalError?.code\<close>: the constructed classes carry no \<open>data\<close>.\<close>

fun originalErrorCode :: "error \<Rightarrow> int option" where
  "originalErrorCode (ProviderError c oc) = oc"
| "originalErrorCode (RpcRequestError c oc) = oc"
| "originalErrorCode (UserRejectedRequestError e) = None"
| "originalErrorCode (ResourceUnavailableRpcError e) = None"
| "originalErrorCode (SwitchChainError e) = None"
| "originalErrorCode ProviderNotFoundError = None"
| "originalErrorCode ChainNotConfiguredError = None"
| "originalErrorCode (PlainError m) = None"
| "originalErrorCode TypeError = None"
| "originalErrorCode (OtherError m) = None"

datatype 'a outcome = Resolved 'a | Rejected error | Pending

text \<open>\<open>await\<close>: continue with the value of a resolved promise; a rejection or a promise
  that never settles ends the caller the same way.\<close>

definition await :: "'a outcome \<times> 'w \<Rightarrow> ('a \<Rightarrow> 'w \<Rightarrow> 'b outcome \<times> 'w) \<Rightarrow> 'b outcome \<times> 'w" where
  "await r k = (case r of
       (Resolved a, w) \<Rightarrow> k a w
     | (Rejected e, w) \<Rightarrow> (Rejected e, w)
     | (Pending, w) \<Rightarrow> (Pending, w))"

text \<open>\<open>try { ... } catch (error) { ... }\<close> and \<open>promise.catch(...)\<close>.\<close>

definition catch :: "'a outcome \<times> 'w \<Rightarrow> (error \<Rightarrow> 'w \<Rightarrow> 'a outcome \<times> 'w) \<Rightarrow> 'a outcome \<times> 'w" where
  "catch r h = (case r of
       (Resolved a, w) \<Rightarrow> (Resolved a, w)
     | (Rejected e, w) \<Rightarrow> h e w
     | (Pending, w) \<Rightarrow> (Pending, w))"

text \<open>A synchronous helper that may throw, as a promise outcome.\<close>

definition lift :: "error + 'a \<Rightarrow> 'a outcome" where
  "lift r = (case r of Inl e \<Rightarrow> Rejected e | Inr a \<Rightarrow> Resolved a)"

text \<open>\<open>xs.map(f)\<close> for an \<open>f\<close> that may throw: \<open>map\<close> calls \<open>f\<close> with the element and
  its index, and the first throw ends the map.\<close>

fun mapFrom :: "('a \<Rightarrow> nat \<Rightarrow> error + 'b) \<Rightarrow> nat \<Rightarrow> 'a list \<Rightarrow> error + 'b list" where
  "mapFrom f i [] = Inr []"
| "mapFrom f i (x # xs) =
     (case f x i of
        Inl e \<Rightarrow> Inl e
      | Inr y \<Rightarrow> (case mapFrom f (Suc i) xs of Inl e \<Rightarrow> Inl e | Inr ys \<Rightarrow> Inr (y # ys)))"

definition mapThrowing :: "('a \<Rightarrow> nat \<Rightarrow> error + 'b) \<Rightarrow> 'a list \<Rightarrow> error + 'b list" where
  "mapThrowing f xs = mapFrom f 0 xs"

subsection \<open>Providers, the window and target descriptors\<close>

text \<open>
  A \<open>WindowProvider\<close>: \<open>flags\<close> lists the \<open>WindowProviderFlags\<close> properties that are set
  (their type is \<open>true | undefined\<close>), \<open>providers\<close> is the optional list of sub-providers,
  \<open>has_events\<close> and \<open>has_state\<close> say whether \<open>_events\<close> and \<open>_state\<close> are present. \<open>pid\<close> is
  the identity of the object: listeners are registered on an object, not on its contents.
\<close>

datatype provider = Provider
  (pid: nat) (flags: "string list") (providers: "provider list option")
  (has_events: bool) (has_state: bool)

record window =
  coinbaseWalletExtension :: "provider option"
  ethereum :: "provider option"
  phantom :: "provider option"

text \<open>The \<open>condition\<close> argument of \<open>findProvider\<close>: a flag name or a predicate.\<close>

datatype condition = CFlag string | CFun "provider \<Rightarrow> bool"

fun isProvider :: "condition \<Rightarrow> provider \<Rightarrow> bool" where
  "isProvider (CFun f) p = f p"
| "isProvider (CFlag flag) p = (flag \<in> set (flags p))"

definition findProvider :: "window option \<Rightarrow> condition \<Rightarrow> provider option" where
  "findProvider win cond =
     (case win of
        None \<Rightarrow> None
      | Some w \<Rightarrow>
          (case ethereum w of
             None \<Rightarrow> None
           | Some eth \<Rightarrow>
               (case providers eth of
                  Some ps \<Rightarrow> find (isProvider cond) ps
                | None \<Rightarrow> if isProvider cond eth then Some eth else None)))"

text \<open>The \<open>provider\<close> field of a target: a flag name or a function of the window.\<close>

datatype provider_spec = Flag string | Resolver "window option \<Rightarrow> provider option"

record target_descriptor =
  target_id :: string
  target_name :: string
  target_provider :: provider_spec
  target_features :: "string list option"

text \<open>The flags of wallets that set \<open>isMetaMask\<close> without being MetaMask.\<close>

definition metaMask_flags :: "string list" where
  "metaMask_flags =
     [''isApexWallet'', ''isAvalanche'', ''isBitKeep'', ''isBlockWallet'',
      ''isKuCoinWallet'', ''isMathWallet'', ''isOkxWallet'', ''isOKExWallet'',
      ''isOneInchIOSWallet'', ''isOneInchAndroidWallet'', ''isOpera'', ''isPortal'',
      ''isRabby'', ''isTokenPocket'', ''isTokenary'', ''isZerion'']"

text \<open>\<open>for (const flag of flags) if (windowProvider[flag]) return false; return true\<close>\<close>

fun noFlagSet :: "string list \<Rightarrow> provider \<Rightarrow> bool" where
  "noFlagSet [] p = True"
| "noFlagSet (flag # rest) p = (if flag \<in> set (flags p) then False else noFlagSet rest p)"

text \<open>The predicate that \<open>targetMap.metaMask.provider\<close> hands to \<open>findProvider\<close>.\<close>

definition metaMask_condition :: "provider \<Rightarrow> bool" where
  "metaMask_condition windowProvider =
     (if ''isMetaMask'' \<notin> set (flags windowProvider) then False
      else if ''isBraveWallet'' \<in> set (flags windowProvider)
              \<and> \<not> has_events windowProvider \<and> \<not> has_state windowProvider then False
      else noFlagSet metaMask_flags windowProvider)"

definition coinbaseWallet_provider :: "window option \<Rightarrow> provider option" where
  "coinbaseWallet_provider win =
     (case (case win of None \<Rightarrow> None | Some w \<Rightarrow> coinbaseWalletExtension w) of
        Some ext \<Rightarrow> Some ext
      | None \<Rightarrow> findProvider win (CFlag ''isCoinbaseWallet''))"

definition metaMask_provider :: "window option \<Rightarrow> provider option" where
  "metaMask_provider win = findProvider win (CFun metaMask_condition)"

definition phantom_provider :: "window option \<Rightarrow> provider option" where
  "phantom_provider win =
     (case (case win of None \<Rightarrow> None | Some w \<Rightarrow> phantom w) of
        Some eth \<Rightarrow> Some eth
      | None \<Rightarrow> findProvider win (CFlag ''isPhantom''))"

text \<open>\<open>targetMap[target]\<close>; the \<open>target_id\<close> of an entry is filled in by the caller.\<close>

definition targetMap :: "string \<Rightarrow> target_descriptor option" where
  "targetMap key =
     (if key = ''coinbaseWallet'' then
        Some \<lparr>target_id = key, target_name = ''Coinbase Wallet'',
              target_provider = Resolver coinbaseWallet_provider, target_features = None\<rparr>
      else if key = ''metaMask'' then
        Some \<lparr>target_id = key, target_name = ''MetaMask'',
              target_provider = Resolver metaMask_provider,
              target_features = Some [''wallet_requestPermissions'']\<rparr>
      else if key = ''phantom'' then
        Some \<lparr>target_id = key, target_name = ''Phantom'',
              target_provider = Resolver phantom_provider, target_features = None\<rparr>
      else None)"

text \<open>\<open>toUpperCase\<close> on one character, for the ASCII letters of wallet identifiers.\<close>

definition toUpperCase :: "char \<Rightarrow> char" where
  "toUpperCase c =
     (if 97 \<le> (of_char c :: nat) \<and> (of_char c :: nat) \<le> 122
      then char_of ((of_char c :: nat) - 32) else c)"

text \<open>\<open>`${target[0]!.toUpperCase()}${target.slice(1)}`\<close>: \<open>target[0]\<close> of the empty
  string is \<open>undefined\<close>, and calling a method on it throws a \<open>TypeError\<close>.\<close>

definition capitalize :: "string \<Rightarrow> error + string" where
  "capitalize target =
     (case target of [] \<Rightarrow> Inl TypeError | c # rest \<Rightarrow> Inr (toUpperCase c # rest))"

text \<open>\<open>parameters.target\<close>: a string, or a function, modelled by the value it returns
  (a descriptor or \<open>undefined\<close>).\<close>

datatype target = TargetId string | TargetFunction "target_descriptor option"

datatype shimAsyncInject = AsyncInjectBool bool | AsyncInjectNumber nat

record parameters =
  shimDisconnect :: "bool option"
  unstable_shimAsyncInject :: "shimAsyncInject option"
  target :: "target option"

definition injected_descriptor :: target_descriptor where
  "injected_descriptor =
     \<lparr>target_id = ''injected'', target_name = ''Injected'',
      target_provider = Resolver (\<lambda>win. case win of None \<Rightarrow> None | Some w \<Rightarrow> ethereum w),
      target_features = None\<rparr>"

definition stringTarget :: "string \<Rightarrow> error + target_descriptor" where
  "stringTarget t =
     (case targetMap t of
        Some d \<Rightarrow> Inr (d\<lparr>target_id := t\<rparr>)
      | None \<Rightarrow>
          (case capitalize t of
             Inl e \<Rightarrow> Inl e
           | Inr cap \<Rightarrow>
               Inr \<lparr>target_id = t, target_name = cap,
                    target_provider = Flag (''is'' @ cap), target_features = None\<rparr>))"

definition getWindowProvider :: "parameters \<Rightarrow> error + target_descriptor" where
  "getWindowProvider ps =
     (case target ps of
        Some (TargetFunction (Some result)) \<Rightarrow> Inr result
      | Some (TargetFunction None) \<Rightarrow> Inr injected_descriptor
      | Some (TargetId t) \<Rightarrow> stringTarget t
      | None \<Rightarrow> Inr injected_descriptor)"

text \<open>\<open>getProvider\<close>: \<open>None\<close> for the window is \<open>typeof window === 'undefined'\<close>. A
  descriptor whose \<open>provider\<close> is not a function is searched with the condition
  \<open>() => true\<close>.\<close>

definition getProvider :: "parameters \<Rightarrow> window option \<Rightarrow> error + provider option" where
  "getProvider ps win =
     (case win of
        None \<Rightarrow> Inr None
      | Some w \<Rightarrow>
          (case getWindowProvider ps of
             Inl e \<Rightarrow> Inl e
           | Inr windowProvider \<Rightarrow>
               (case target_provider windowProvider of
                  Resolver f \<Rightarrow> Inr (f (Some w))
                | Flag flag \<Rightarrow> Inr (findProvider (Some w) (CFun (\<lambda>p. True))))))"

subsection \<open>Chains, the wallet and the helper functions\<close>

record blockExplorer =
  explorer_name :: string
  explorer_url :: string

record nativeCurrency =
  currency_name :: string
  currency_symbol :: string
  currency_decimals :: nat

text \<open>A chain of \<open>config.chains\<close>. \<open>chain_rpcUrls_public_http\<close> is
  \<open>chain.rpcUrls.public?.http\<close>; \<open>chain_blockExplorers\<close> is the \<open>blockExplorers\<close> object as
  its entries in order, \<open>None\<close> when the property is absent.\<close>

record chain =
  chain_id :: int
  chain_name :: string
  chain_nativeCurrency :: nativeCurrency
  chain_rpcUrls_public_http :: "string list option"
  chain_blockExplorers :: "(string \<times> blockExplorer) list option"

text \<open>The parameter object of \<open>wallet_addEthereumChain\<close>.\<close>

record addEthereumChainParameter =
  add_chainId :: string
  add_chainName :: string
  add_nativeCurrency :: nativeCurrency
  add_rpcUrls :: "string list"
  add_blockExplorerUrls :: "string list"

datatype rpc_request =
    Eth_accounts
  | Eth_requestAccounts
  | Eth_chainId
  | Wallet_requestPermissions
  | Wallet_switchEthereumChain string
  | Wallet_addEthereumChain addEthereumChainParameter

text \<open>A permission of \<open>wallet_requestPermissions\<close> is read as
  \<open>permissions[0]?.caveats?.[0]?.value\<close>: a caveat is its optional \<open>value\<close>, a permission
  its optional list of caveats.\<close>

type_synonym caveat = "string list option"
type_synonym permission = "caveat list option"

text \<open>
  Everything the connector is configured with or calls out to. \<open>params\<close> and \<open>chains\<close> are
  the connector's parameters and \<open>config.chains\<close>. \<open>getAddress\<close> and \<open>numberToHex\<close> (viem),
  \<open>normalizeChainId\<close> (@wagmi/core) and \<open>numberToString\<close> (\<open>Number.prototype.toString\<close>)
  are arbitrary functions, the first three of which may throw. The source calls
  \<open>getAddress\<close> through \<open>map\<close> only, so its second argument (viem's optional chain id) is
  the index of the address in the list. The remaining fields are
  the wallet: for each method the answer to \<open>provider.request\<close>, which depends on the
  provider object asked, the parameters, and the wallet's own state \<open>'p\<close>.
\<close>

record 'p config =
  params :: parameters
  chains :: "chain list"
  getAddress :: "string \<Rightarrow> nat \<Rightarrow> error + string"
  numberToHex :: "int \<Rightarrow> error + string"
  normalizeChainId :: "string \<Rightarrow> error + int"
  numberToString :: "int \<Rightarrow> string"
  eth_accounts :: "provider \<Rightarrow> 'p \<Rightarrow> string list outcome \<times> 'p"
  eth_requestAccounts :: "provider \<Rightarrow> 'p \<Rightarrow> string list outcome \<times> 'p"
  eth_chainId :: "provider \<Rightarrow> 'p \<Rightarrow> string outcome \<times> 'p"
  wallet_requestPermissions :: "provider \<Rightarrow> 'p \<Rightarrow> permission list outcome \<times> 'p"
  wallet_switchEthereumChain :: "provider \<Rightarrow> string \<Rightarrow> 'p \<Rightarrow> unit outcome \<times> 'p"
  wallet_addEthereumChain ::
    "provider \<Rightarrow> addEthereumChainParameter \<Rightarrow> 'p \<Rightarrow> unit outcome \<times> 'p"

subsection \<open>The world\<close>

text \<open>
  Function identity matters for listeners. \<open>this.onConnect.bind(this)\<close> makes a new
  function at every evaluation, \<open>this.onChainChanged\<close> is the same function every time,
  and \<open>handleEthereum\<close> and the arrow function around it are two closures made by one call
  of \<open>isAuthorized\<close>. The number in a handler is the serial number of the closure.
\<close>

datatype callback = OnAccountsChanged | OnChainChanged | OnConnect | OnDisconnect

datatype handler =
    Bound callback nat
  | Unbound callback
  | HandleEthereum nat
  | InitializedWrapper nat

datatype emitter_event =
    EmitConnect "string list" int
  | EmitDisconnect
  | EmitChangeAccounts "string list"
  | EmitChangeChainId int

text \<open>
  \<open>win\<close> is the global \<open>window\<close> (\<open>None\<close>: \<open>typeof window === 'undefined'\<close>); \<open>storage\<close> is
  \<open>config.storage\<close> (\<open>None\<close>: no storage configured); \<open>requests\<close> logs every
  \<open>provider.request\<close> with the identity of the provider asked; \<open>listeners\<close> is the listener
  list of each provider object; \<open>windowListeners\<close> holds the listeners on the window with
  their \<open>once\<close> option; \<open>timeouts\<close> logs the delays given to \<open>setTimeout\<close>; \<open>emitted\<close> logs
  \<open>config.emitter.emit\<close>; \<open>connectListenerCount\<close> is
  \<open>config.emitter.listenerCount('connect')\<close>; \<open>closures\<close> counts the closures made so far.
\<close>

record 'p world =
  win :: "window option"
  storage :: "(string \<rightharpoonup> bool) option"
  wallet_state :: 'p
  requests :: "(nat \<times> rpc_request) list"
  listeners :: "nat \<Rightarrow> (string \<times> handler) list"
  windowListeners :: "(string \<times> handler \<times> bool) list"
  timeouts :: "nat list"
  emitted :: "emitter_event list"
  connectListenerCount :: nat
  closures :: nat

text \<open>\<open>provider.request(...)\<close>: the wallet answers and moves on; the call is logged.\<close>

definition request ::
  "provider \<Rightarrow> rpc_request \<Rightarrow> ('p \<Rightarrow> 'a outcome \<times> 'p) \<Rightarrow> 'p world \<Rightarrow> 'a outcome \<times> 'p world" where
  "request provider r answer w =
     (case answer (wallet_state w) of
        (res, s) \<Rightarrow> (res, w\<lparr>wallet_state := s, requests := requests w @ [(pid provider, r)]\<rparr>))"

text \<open>\<open>const provider = await this.getProvider();
  if (!provider) throw new ProviderNotFoundError()\<close>\<close>

definition withProvider ::
  "'p config \<Rightarrow> 'p world \<Rightarrow> (provider \<Rightarrow> 'p world \<Rightarrow> 'a outcome \<times> 'p world) \<Rightarrow> 'a outcome \<times> 'p world" where
  "withProvider c w k =
     (case getProvider (params c) (win w) of
        Inl e \<Rightarrow> (Rejected e, w)
      | Inr None \<Rightarrow> (Rejected ProviderNotFoundError, w)
      | Inr (Some provider) \<Rightarrow> k provider w)"

definition getAccounts :: "'p config \<Rightarrow> 'p world \<Rightarrow> string list outcome \<times> 'p world" where
  "getAccounts c w =
     withProvider c w (\<lambda>provider w.
       await (request provider Eth_accounts (eth_accounts c provider) w) (\<lambda>accounts w.
         (lift (mapThrowing (getAddress c) accounts), w)))"

definition getChainId :: "'p config \<Rightarrow> 'p world \<Rightarrow> int outcome \<times> 'p world" where
  "getChainId c w =
     withProvider c w (\<lambda>provider w.
       await (request provider Eth_chainId (eth_chainId c provider) w) (\<lambda>hexChainId w.
         (lift (normalizeChainId c hexChainId), w)))"

subsection \<open>The disconnect shim\<close>

text \<open>\<open>parameters.shimDisconnect ?? true\<close>\<close>

definition shim :: "'p config \<Rightarrow> bool" where
  "shim c = (case shimDisconnect (params c) of None \<Rightarrow> True | Some b \<Rightarrow> b)"

text \<open>\<open>`${this.id}.connected`\<close>, where \<open>this.id\<close> is \<open>getWindowProvider().id\<close>.\<close>

definition connectedKey :: "'p config \<Rightarrow> error + string" where
  "connectedKey c =
     (case getWindowProvider (params c) of
        Inl e \<Rightarrow> Inl e
      | Inr windowProvider \<Rightarrow> Inr (target_id windowProvider @ ''.connected''))"

text \<open>\<open>shimDisconnect && !(await config.storage?.getItem(`${this.id}.connected`))\<close>:
  neither \<open>&&\<close> nor \<open>?.\<close> evaluates what follows it when it short-circuits.\<close>

definition isDisconnected :: "'p config \<Rightarrow> 'p world \<Rightarrow> error + bool" where
  "isDisconnected c w =
     (if \<not> shim c then Inr False
      else (case storage w of
              None \<Rightarrow> Inr True
            | Some items \<Rightarrow>
                (case connectedKey c of
                   Inl e \<Rightarrow> Inl e
                 | Inr key \<Rightarrow> Inr (\<not> (case items key of None \<Rightarrow> False | Some b \<Rightarrow> b)))))"

text \<open>\<open>if (shimDisconnect) await config.storage?.setItem(`${this.id}.connected`, true)\<close>\<close>

definition addShim :: "'p config \<Rightarrow> 'p world \<Rightarrow> error + 'p world" where
  "addShim c w =
     (if shim c then
        (case storage w of
           None \<Rightarrow> Inr w
         | Some items \<Rightarrow>
             (case connectedKey c of
                Inl e \<Rightarrow> Inl e
              | Inr key \<Rightarrow> Inr (w\<lparr>storage := Some (items(key \<mapsto> True))\<rparr>)))
      else Inr w)"

text \<open>\<open>if (shimDisconnect) await config.storage?.removeItem(`${this.id}.connected`)\<close>\<close>

definition removeShim :: "'p config \<Rightarrow> 'p world \<Rightarrow> error + 'p world" where
  "removeShim c w =
     (if shim c then
        (case storage w of
           None \<Rightarrow> Inr w
         | Some items \<Rightarrow>
             (case connectedKey c of
                Inl e \<Rightarrow> Inl e
              | Inr key \<Rightarrow> Inr (w\<lparr>storage := Some (items(key := None))\<rparr>)))
      else Inr w)"

subsection \<open>Provider listeners\<close>

text \<open>\<open>this.onConnect.bind(this)\<close> and its like: a new function.\<close>

definition bound :: "callback \<Rightarrow> 'p world \<Rightarrow> handler \<times> 'p world" where
  "bound m w = (Bound m (closures w), w\<lparr>closures := Suc (closures w)\<rparr>)"

text \<open>\<open>provider.on\<close> appends a listener; \<open>provider.removeListener\<close> removes the most
  recently added occurrence of that very function, if there is one (an EventEmitter).\<close>

definition provider_on :: "provider \<Rightarrow> string \<Rightarrow> handler \<Rightarrow> 'p world \<Rightarrow> 'p world" where
  "provider_on provider event h w =
     w\<lparr>listeners := (listeners w)(pid provider := listeners w (pid provider) @ [(event, h)])\<rparr>"

definition removeLast :: "'a \<Rightarrow> 'a list \<Rightarrow> 'a list" where
  "removeLast x xs = rev (remove1 x (rev xs))"

definition provider_removeListener :: "provider \<Rightarrow> string \<Rightarrow> handler \<Rightarrow> 'p world \<Rightarrow> 'p world" where
  "provider_removeListener provider event h w =
     w\<lparr>listeners := (listeners w)(pid provider := removeLast (event, h) (listeners w (pid provider)))\<rparr>"

text \<open>The four listener statements of \<open>connect\<close> and \<open>onConnect\<close>:
  \<^verbatim>\<open>provider.removeListener('connect', this.onConnect.bind(this))
provider.on('accountsChanged', this.onAccountsChanged.bind(this))
provider.on('chainChanged', this.onChainChanged)
provider.on('disconnect', this.onDisconnect.bind(this))\<close>\<close>

definition listenConnected :: "provider \<Rightarrow> 'p world \<Rightarrow> 'p world" where
  "listenConnected provider w =
     (case bound OnConnect w of (h1, w1) \<Rightarrow>
      (case bound OnAccountsChanged (provider_removeListener provider ''connect'' h1 w1) of (h2, w2) \<Rightarrow>
      (case bound OnDisconnect
              (provider_on provider ''chainChanged'' (Unbound OnChainChanged)
                (provider_on provider ''accountsChanged'' h2 w2)) of (h3, w3) \<Rightarrow>
       provider_on provider ''disconnect'' h3 w3)))"

text \<open>The four listener statements of \<open>disconnect\<close> and \<open>onDisconnect\<close>:
  \<^verbatim>\<open>provider.removeListener('accountsChanged', this.onAccountsChanged.bind(this))
provider.removeListener('chainChanged', this.onChainChanged)
provider.removeListener('disconnect', this.onDisconnect.bind(this))
provider.on('connect', this.onConnect.bind(this))\<close>\<close>

definition listenDisconnected :: "provider \<Rightarrow> 'p world \<Rightarrow> 'p world" where
  "listenDisconnected provider w =
     (case bound OnAccountsChanged w of (h1, w1) \<Rightarrow>
      (case bound OnDisconnect
              (provider_removeListener provider ''chainChanged'' (Unbound OnChainChanged)
                (provider_removeListener provider ''accountsChanged'' h1 w1)) of (h2, w2) \<Rightarrow>
      (case bound OnConnect (provider_removeListener provider ''disconnect'' h2 w2) of (h3, w3) \<Rightarrow>
       provider_on provider ''connect'' h3 w3)))"

definition emit :: "emitter_event \<Rightarrow> 'p world \<Rightarrow> 'p world" where
  "emit ev w = w\<lparr>emitted := emitted w @ [ev]\<rparr>"

subsection \<open>switchChain\<close>

text \<open>
  \<open>switchChain\<close> awaits \<open>Promise.all\<close> of the switch request and of a promise that a
  \<open>once('change')\<close> listener on the emitter resolves. The listener runs on the first
  \<open>change\<close> event emitted while the call waits and resolves its promise only if that
  event carries the requested chain id. Which event that is, is an input:
  \<open>FirstChange (Some n)\<close> is a \<open>change\<close> event with \<open>chainId\<close> \<open>n\<close>, \<open>FirstChange None\<close> one
  without a \<open>chainId\<close>, \<open>NoChange\<close> says that no \<open>change\<close> event comes. The listener's promise
  never rejects, so \<open>Promise.all\<close> rejects exactly when the request does, resolves when
  both resolve, and otherwise never settles.
\<close>

datatype confirmation = NoChange | FirstChange "int option"

definition switchAndConfirm ::
  "'p config \<Rightarrow> provider \<Rightarrow> string \<Rightarrow> int \<Rightarrow> confirmation \<Rightarrow> 'p world \<Rightarrow> unit outcome \<times> 'p world" where
  "switchAndConfirm c provider hexId chainId confirm w =
     (case request provider (Wallet_switchEthereumChain hexId)
             (wallet_switchEthereumChain c provider hexId) w of
        (Rejected e, w1) \<Rightarrow> (Rejected e, w1)
      | (Pending, w1) \<Rightarrow> (Pending, w1)
      | (Resolved u, w1) \<Rightarrow>
          (case confirm of
             NoChange \<Rightarrow> (Pending, w1)
           | FirstChange currentChainId \<Rightarrow>
               if currentChainId = Some chainId then (Resolved (), w1) else (Pending, w1)))"

text \<open>\<^verbatim>\<open>const { default: blockExplorer, ...blockExplorers } = chain.blockExplorers ?? {}
let blockExplorerUrls: string[] = []
if (blockExplorer)
  blockExplorerUrls = [blockExplorer.url, ...Object.values(blockExplorers).map((x) => x.url)]\<close>\<close>

definition blockExplorerUrls :: "chain \<Rightarrow> string list" where
  "blockExplorerUrls ch =
     (case chain_blockExplorers ch of
        None \<Rightarrow> []
      | Some entries \<Rightarrow>
          (case map_of entries ''default'' of
             None \<Rightarrow> []
           | Some blockExplorer \<Rightarrow>
               explorer_url blockExplorer
                 # map (\<lambda>(k, x). explorer_url x) (filter (\<lambda>(k, x). k \<noteq> ''default'') entries)))"

text \<open>\<open>[chain.rpcUrls.public?.http[0] ?? '']\<close>; the empty string is \<open>[]\<close>.\<close>

definition rpcUrls :: "chain \<Rightarrow> string list" where
  "rpcUrls ch =
     [(case chain_rpcUrls_public_http ch of
         None \<Rightarrow> []
       | Some [] \<Rightarrow> []
       | Some (url # rest) \<Rightarrow> url)]"

definition addEthereumChainParameter :: "string \<Rightarrow> chain \<Rightarrow> addEthereumChainParameter" where
  "addEthereumChainParameter hexId ch =
     \<lparr>add_chainId = hexId, add_chainName = chain_name ch,
      add_nativeCurrency = chain_nativeCurrency ch,
      add_rpcUrls = rpcUrls ch, add_blockExplorerUrls = blockExplorerUrls ch\<rparr>"

text \<open>The inner \<open>try\<close> block of \<open>switchChain\<close>: add the chain, ask for the chain id again.\<close>

definition addChain ::
  "'p config \<Rightarrow> provider \<Rightarrow> string \<Rightarrow> int \<Rightarrow> chain \<Rightarrow> 'p world \<Rightarrow> chain outcome \<times> 'p world" where
  "addChain c provider hexId chainId ch w =
     await (request provider (Wallet_addEthereumChain (addEthereumChainParameter hexId ch))
              (wallet_addEthereumChain c provider (addEthereumChainParameter hexId ch)) w) (\<lambda>u w.
       await (getChainId c w) (\<lambda>currentChainId w.
         if currentChainId \<noteq> chainId then
           (Rejected (UserRejectedRequestError
              (PlainError ''User rejected switch after adding network.'')), w)
         else (Resolved ch, w)))"

text \<open>The outer \<open>catch\<close> block of \<open>switchChain\<close>.\<close>

definition switchChain_catch ::
  "'p config \<Rightarrow> provider \<Rightarrow> string \<Rightarrow> int \<Rightarrow> chain \<Rightarrow> error \<Rightarrow> 'p world \<Rightarrow> chain outcome \<times> 'p world" where
  "switchChain_catch c provider hexId chainId ch error w =
     (if code error = Some 4902 \<or> originalErrorCode error = Some 4902 then
        catch (addChain c provider hexId chainId ch w)
          (\<lambda>error w. (Rejected (UserRejectedRequestError error), w))
      else if code error = Some 4001 then (Rejected (UserRejectedRequestError error), w)
      else (Rejected (SwitchChainError error), w))"

definition switchChain ::
  "'p config \<Rightarrow> confirmation \<Rightarrow> int \<Rightarrow> 'p world \<Rightarrow> chain outcome \<times> 'p world" where
  "switchChain c confirm chainId w =
     withProvider c w (\<lambda>provider w.
       (case find (\<lambda>x. chain_id x = chainId) (chains c) of
          None \<Rightarrow> (Rejected (SwitchChainError ChainNotConfiguredError), w)
        | Some ch \<Rightarrow>
            (case numberToHex c chainId of
               Inl e \<Rightarrow> (Rejected e, w)
             | Inr hexId \<Rightarrow>
                 catch (await (switchAndConfirm c provider hexId chainId confirm w)
                          (\<lambda>u w. (Resolved ch, w)))
                   (switchChain_catch c provider hexId chainId ch))))"

subsection \<open>connect and disconnect\<close>

record connection =
  conn_accounts :: "string list"
  conn_chainId :: int

text \<open>\<open>permissions[0]?.caveats?.[0]?.value\<close>\<close>

definition permittedAccounts :: "permission list \<Rightarrow> string list option" where
  "permittedAccounts permissions =
     (case permissions of
        [] \<Rightarrow> None
      | None # ps \<Rightarrow> None
      | Some [] # ps \<Rightarrow> None
      | Some (caveat # cs) # ps \<Rightarrow> caveat)"

text \<open>\<open>!!accounts?.length\<close> for \<open>accounts\<close> that may be \<open>null\<close> or \<open>undefined\<close>.\<close>

definition hasLength :: "string list option \<Rightarrow> bool" where
  "hasLength accounts = (case accounts of None \<Rightarrow> False | Some xs \<Rightarrow> xs \<noteq> [])"

text \<open>The inner \<open>try\<close>/\<open>catch\<close> of \<open>connect\<close>: ask for permissions; \<open>accounts\<close> keeps its
  value when the error is swallowed.\<close>

definition requestPermissions ::
  "'p config \<Rightarrow> provider \<Rightarrow> string list option \<Rightarrow> 'p world \<Rightarrow> string list option outcome \<times> 'p world" where
  "requestPermissions c provider accounts w =
     catch
       (await (request provider Wallet_requestPermissions (wallet_requestPermissions c provider) w)
          (\<lambda>permissions w.
             (case permittedAccounts permissions of
                None \<Rightarrow> (Resolved None, w)
              | Some v \<Rightarrow>
                  (case mapThrowing (getAddress c) v of
                     Inl e \<Rightarrow> (Rejected e, w)
                   | Inr as \<Rightarrow> (Resolved (Some as), w)))))
       (\<lambda>error w.
          if code error = Some 4001 then (Rejected (UserRejectedRequestError error), w)
          else if code error = code (ResourceUnavailableRpcError error) then (Rejected error, w)
          else (Resolved accounts, w))"

text \<open>The block under \<open>if (canSelectAccount && isDisconnected)\<close>.\<close>

definition selectAccounts ::
  "'p config \<Rightarrow> provider \<Rightarrow> 'p world \<Rightarrow> string list option outcome \<times> 'p world" where
  "selectAccounts c provider w =
     await (catch (await (getAccounts c w) (\<lambda>as w. (Resolved (Some as), w)))
              (\<lambda>error w. (Resolved None, w))) (\<lambda>accounts w.
       if hasLength accounts then requestPermissions c provider accounts w
       else (Resolved accounts, w))"

text \<open>The \<open>try\<close> block of \<open>connect\<close>, in two parts. The first part obtains the
  accounts: it runs up to the end of \<open>if (!accounts?.length) { ... }\<close>.\<close>

definition connect_accounts ::
  "'p config \<Rightarrow> provider \<Rightarrow> 'p world \<Rightarrow> string list outcome \<times> 'p world" where
  "connect_accounts c provider w =
     (case getWindowProvider (params c) of
        Inl e \<Rightarrow> (Rejected e, w)
      | Inr windowProvider \<Rightarrow>
     (case isDisconnected c w of
        Inl e \<Rightarrow> (Rejected e, w)
      | Inr disconnected \<Rightarrow>
     await (if (case target_features windowProvider of
                  None \<Rightarrow> False
                | Some features \<Rightarrow> ''wallet_requestPermissions'' \<in> set features)
               \<and> disconnected
            then selectAccounts c provider w else (Resolved None, w)) (\<lambda>accounts w.
       if \<not> hasLength accounts then
         await (request provider Eth_requestAccounts (eth_requestAccounts c provider) w)
           (\<lambda>accounts' w. (lift (mapThrowing (getAddress c) accounts'), w))
       else (Resolved (case accounts of None \<Rightarrow> [] | Some as \<Rightarrow> as), w))))"

text \<open>The second part registers the listeners, switches the chain if one is asked for
  (\<open>if (chainId && currentChainId !== chainId)\<close>), adds the shim and returns.\<close>

definition connect_chain ::
  "'p config \<Rightarrow> confirmation \<Rightarrow> int option \<Rightarrow> provider \<Rightarrow> string list \<Rightarrow> 'p world
     \<Rightarrow> connection outcome \<times> 'p world" where
  "connect_chain c confirm chainId provider accounts w =
     await (getChainId c (listenConnected provider w)) (\<lambda>currentChainId w.
     await (case chainId of
              None \<Rightarrow> (Resolved currentChainId, w)
            | Some requested \<Rightarrow>
                if requested \<noteq> 0 \<and> currentChainId \<noteq> requested then
                  catch (await (switchChain c confirm requested w)
                           (\<lambda>ch w. (Resolved (chain_id ch), w)))
                    (\<lambda>error w. (Resolved currentChainId, w))
                else (Resolved currentChainId, w)) (\<lambda>currentChainId w.
     (case addShim c w of
        Inl e \<Rightarrow> (Rejected e, w)
      | Inr w' \<Rightarrow>
          (Resolved \<lparr>conn_accounts = accounts, conn_chainId = currentChainId\<rparr>, w'))))"

definition connect_try ::
  "'p config \<Rightarrow> confirmation \<Rightarrow> int option \<Rightarrow> provider \<Rightarrow> 'p world \<Rightarrow> connection outcome \<times> 'p world" where
  "connect_try c confirm chainId provider w =
     await (connect_accounts c provider w) (connect_chain c confirm chainId provider)"

text \<open>The \<open>catch\<close> block of \<open>connect\<close>.\<close>

definition connect_catch :: "error \<Rightarrow> error" where
  "connect_catch error =
     (if code error = Some 4001 then UserRejectedRequestError error
      else if code error = Some (- 32002) then ResourceUnavailableRpcError error
      else error)"

definition connect ::
  "'p config \<Rightarrow> confirmation \<Rightarrow> int option \<Rightarrow> 'p world \<Rightarrow> connection outcome \<times> 'p world" where
  "connect c confirm chainId w =
     withProvider c w (\<lambda>provider w.
       catch (connect_try c confirm chainId provider w)
         (\<lambda>error w. (Rejected (connect_catch error), w)))"

definition disconnect :: "'p config \<Rightarrow> 'p world \<Rightarrow> unit outcome \<times> 'p world" where
  "disconnect c w =
     withProvider c w (\<lambda>provider w.
       (case removeShim c (listenDisconnected provider w) of
          Inl e \<Rightarrow> (Rejected e, listenDisconnected provider w)
        | Inr w' \<Rightarrow> (Resolved (), w')))"

subsection \<open>isAuthorized and the asynchronous injection\<close>

text \<open>
  \<open>isAuthorized\<close> races the window event \<open>ethereum#initialized\<close> against a timer. Which of
  the two runs \<open>handleEthereum\<close> first, and what the window holds at that moment, is an
  input. The winner settles the race with what \<open>handleEthereum\<close> returns.
\<close>

datatype race = EventFirst window | TimeoutFirst window

text \<open>\<open>unstable_shimAsyncInject !== undefined && unstable_shimAsyncInject !== false\<close>\<close>

definition asyncInjectEnabled :: "'p config \<Rightarrow> bool" where
  "asyncInjectEnabled c =
     (case unstable_shimAsyncInject (params c) of
        None \<Rightarrow> False
      | Some (AsyncInjectBool b) \<Rightarrow> b
      | Some (AsyncInjectNumber n) \<Rightarrow> True)"

text \<open>\<open>typeof unstable_shimAsyncInject === 'number' ? unstable_shimAsyncInject : 1_000\<close>\<close>

definition timeout :: "'p config \<Rightarrow> nat" where
  "timeout c =
     (case unstable_shimAsyncInject (params c) of
        Some (AsyncInjectNumber n) \<Rightarrow> n
      | Some (AsyncInjectBool b) \<Rightarrow> 1000
      | None \<Rightarrow> 1000)"

text \<open>\<open>window.addEventListener(type, listener, { once: true })\<close>\<close>

definition addEventListener :: "string \<Rightarrow> handler \<Rightarrow> bool \<Rightarrow> 'p world \<Rightarrow> 'p world" where
  "addEventListener type h once w = w\<lparr>windowListeners := windowListeners w @ [(type, h, once)]\<rparr>"

text \<open>\<open>window.removeEventListener(type, listener)\<close> removes the registration of that
  very function for that type.\<close>

definition removeEventListener :: "string \<Rightarrow> handler \<Rightarrow> 'p world \<Rightarrow> 'p world" where
  "removeEventListener type h w =
     w\<lparr>windowListeners := filter (\<lambda>(type', h', once). \<not> (type' = type \<and> h' = h)) (windowListeners w)\<rparr>"

text \<open>The window dispatches an event: every listener registered with \<open>once\<close> for that
  type is removed as it is called.\<close>

definition dispatched :: "string \<Rightarrow> 'p world \<Rightarrow> 'p world" where
  "dispatched type w =
     w\<lparr>windowListeners := filter (\<lambda>(type', h', once). \<not> (type' = type \<and> once)) (windowListeners w)\<rparr>"

text \<open>\<^verbatim>\<open>const handleEthereum = async () => {
  if (typeof window !== 'undefined')
    window.removeEventListener('ethereum#initialized', handleEthereum)
  const provider = await this.getProvider()
  return !!provider
}\<close>
  \<open>k\<close> is the serial number of the closure \<open>handleEthereum\<close>.\<close>

definition handleEthereum :: "'p config \<Rightarrow> nat \<Rightarrow> 'p world \<Rightarrow> bool outcome \<times> 'p world" where
  "handleEthereum c k w =
     (case (if win w \<noteq> None then removeEventListener ''ethereum#initialized'' (HandleEthereum k) w
            else w) of w1 \<Rightarrow>
        (case getProvider (params c) (win w1) of
           Inl e \<Rightarrow> (Rejected e, w1)
         | Inr provider \<Rightarrow> (Resolved (provider \<noteq> None), w1)))"

text \<open>
  The \<open>Promise.race\<close>: two closures are made (\<open>handleEthereum\<close>, then the arrow function
  registered on the window), the listener is registered if there is a window, and the
  timer is set. With no window only the timer can run \<open>handleEthereum\<close>.
\<close>

definition injectionRace :: "'p config \<Rightarrow> race \<Rightarrow> 'p world \<Rightarrow> bool outcome \<times> 'p world" where
  "injectionRace c r w =
     (case closures w of k \<Rightarrow>
      (case w\<lparr>closures := Suc (Suc k)\<rparr> of w1 \<Rightarrow>
      (case (if win w1 \<noteq> None
             then addEventListener ''ethereum#initialized'' (InitializedWrapper (Suc k)) True w1
             else w1) of w2 \<Rightarrow>
      (case w2\<lparr>timeouts := timeouts w2 @ [timeout c]\<rparr> of w3 \<Rightarrow>
         (if win w3 = None then handleEthereum c k w3
          else (case r of
                  EventFirst window' \<Rightarrow>
                    handleEthereum c k (dispatched ''ethereum#initialized'' (w3\<lparr>win := Some window'\<rparr>))
                | TimeoutFirst window' \<Rightarrow>
                    handleEthereum c k (w3\<lparr>win := Some window'\<rparr>)))))))"

text \<open>The \<open>try\<close> block of \<open>isAuthorized\<close>.\<close>

definition isAuthorized_try :: "'p config \<Rightarrow> race \<Rightarrow> 'p world \<Rightarrow> bool outcome \<times> 'p world" where
  "isAuthorized_try c r w =
     (case isDisconnected c w of
        Inl e \<Rightarrow> (Rejected e, w)
      | Inr True \<Rightarrow> (Resolved False, w)
      | Inr False \<Rightarrow>
          (case getProvider (params c) (win w) of
             Inl e \<Rightarrow> (Rejected e, w)
           | Inr (Some provider) \<Rightarrow>
               await (getAccounts c w) (\<lambda>accounts w. (Resolved (accounts \<noteq> []), w))
           | Inr None \<Rightarrow>
               if asyncInjectEnabled c then
                 await (injectionRace c r w) (\<lambda>res w.
                   if res then (Resolved True, w) else (Rejected ProviderNotFoundError, w))
               else (Rejected ProviderNotFoundError, w)))"

definition isAuthorized :: "'p config \<Rightarrow> race \<Rightarrow> 'p world \<Rightarrow> bool outcome \<times> 'p world" where
  "isAuthorized c r w = catch (isAuthorized_try c r w) (\<lambda>error w. (Resolved False, w))"

subsection \<open>Event handlers and setup\<close>

text \<open>\<open>onDisconnect(error)\<close>; \<open>error\<close> is \<open>None\<close> when the handler is called without one.\<close>

definition onDisconnect :: "'p config \<Rightarrow> error option \<Rightarrow> 'p world \<Rightarrow> unit outcome \<times> 'p world" where
  "onDisconnect c error w =
     (case getProvider (params c) (win w) of
        Inl e \<Rightarrow> (Rejected e, w)
      | Inr provider \<Rightarrow>
          await (if (case error of None \<Rightarrow> False | Some e \<Rightarrow> code e = Some 1013) then
                   (case provider of
                      None \<Rightarrow> (Resolved False, w)
                    | Some p \<Rightarrow>
                        await (getAccounts c w) (\<lambda>accounts w. (Resolved (accounts \<noteq> []), w)))
                 else (Resolved False, w)) (\<lambda>reconnecting w.
            if reconnecting then (Resolved (), w)
            else (case provider of
                    None \<Rightarrow> (Resolved (), emit EmitDisconnect w)
                  | Some p \<Rightarrow> (Resolved (), listenDisconnected p (emit EmitDisconnect w)))))"

text \<open>\<open>onConnect(connectInfo)\<close>; the argument is \<open>connectInfo.chainId\<close>.\<close>

definition onConnect :: "'p config \<Rightarrow> string \<Rightarrow> 'p world \<Rightarrow> unit outcome \<times> 'p world" where
  "onConnect c connectInfo_chainId w =
     await (getAccounts c w) (\<lambda>accounts w.
       if accounts = [] then (Resolved (), w)
       else (case normalizeChainId c connectInfo_chainId of
               Inl e \<Rightarrow> (Rejected e, w)
             | Inr chainId \<Rightarrow>
                 (case emit (EmitConnect accounts chainId) w of w1 \<Rightarrow>
                 (case getProvider (params c) (win w1) of
                    Inl e \<Rightarrow> (Rejected e, w1)
                  | Inr provider \<Rightarrow>
                      (case (case provider of None \<Rightarrow> w1 | Some p \<Rightarrow> listenConnected p w1) of w2 \<Rightarrow>
                      (case addShim c w2 of
                         Inl e \<Rightarrow> (Rejected e, w2)
                       | Inr w3 \<Rightarrow> (Resolved (), w3)))))))"

text \<open>\<open>onAccountsChanged(accounts)\<close>. \<open>this.onDisconnect()\<close> and \<open>this.onConnect(...)\<close> are
  called without \<open>await\<close>: what they do to the world happens, how they settle is dropped.\<close>

definition onAccountsChanged :: "'p config \<Rightarrow> string list \<Rightarrow> 'p world \<Rightarrow> unit outcome \<times> 'p world" where
  "onAccountsChanged c accounts w =
     (if accounts = [] then (Resolved (), snd (onDisconnect c None w))
      else if connectListenerCount w \<noteq> 0 then
        await (getChainId c w) (\<lambda>chainId w.
          (Resolved (), snd (onConnect c (numberToString c chainId) w)))
      else (case mapThrowing (getAddress c) accounts of
              Inl e \<Rightarrow> (Rejected e, w)
            | Inr as \<Rightarrow> (Resolved (), emit (EmitChangeAccounts as) w)))"

definition onChainChanged :: "'p config \<Rightarrow> string \<Rightarrow> 'p world \<Rightarrow> unit outcome \<times> 'p world" where
  "onChainChanged c chain w =
     (case normalizeChainId c chain of
        Inl e \<Rightarrow> (Rejected e, w)
      | Inr chainId \<Rightarrow> (Resolved (), emit (EmitChangeChainId chainId) w))"

text \<open>\<open>parameters.target\<close> as a condition: a function is truthy, a string unless empty.\<close>

definition targetSet :: "'p config \<Rightarrow> bool" where
  "targetSet c =
     (case target (params c) of
        None \<Rightarrow> False
      | Some (TargetId t) \<Rightarrow> t \<noteq> []
      | Some (TargetFunction f) \<Rightarrow> True)"

text \<open>The method \<open>setup\<close>.\<close>

definition setup_connector :: "'p config \<Rightarrow> 'p world \<Rightarrow> unit outcome \<times> 'p world" where
  "setup_connector c w =
     (case getProvider (params c) (win w) of
        Inl e \<Rightarrow> (Rejected e, w)
      | Inr None \<Rightarrow> (Resolved (), w)
      | Inr (Some provider) \<Rightarrow>
          if targetSet c then
            (case bound OnAccountsChanged w of (h1, w1) \<Rightarrow>
            (case bound OnConnect (provider_on provider ''accountsChanged'' h1 w1) of (h2, w2) \<Rightarrow>
               (Resolved (), provider_on provider ''connect'' h2 w2)))
          else (Resolved (), w))"

subsection \<open>Executions\<close>

text \<open>A call into the connector, by the application or by the provider's events, with
  the inputs the call meets. An execution is a sequence of calls.\<close>

datatype call =
    Call_setup
  | Call_connect confirmation "int option"
  | Call_disconnect
  | Call_getAccounts
  | Call_getChainId
  | Call_getProvider
  | Call_isAuthorized race
  | Call_switchChain confirmation int
  | Call_onAccountsChanged "string list"
  | Call_onChainChanged string
  | Call_onConnect string
  | Call_onDisconnect "error option"

text \<open>Whether the call settled by resolving, and the world it leaves.\<close>

fun resolved :: "'a outcome \<times> 'w \<Rightarrow> bool \<times> 'w" where
  "resolved (Resolved a, w) = (True, w)"
| "resolved (Rejected e, w) = (False, w)"
| "resolved (Pending, w) = (False, w)"

fun exec :: "'p config \<Rightarrow> call \<Rightarrow> 'p world \<Rightarrow> bool \<times> 'p world" where
  "exec c Call_setup w = resolved (setup_connector c w)"
| "exec c (Call_connect confirm chainId) w = resolved (connect c confirm chainId w)"
| "exec c Call_disconnect w = resolved (disconnect c w)"
| "exec c Call_getAccounts w = resolved (getAccounts c w)"
| "exec c Call_getChainId w = resolved (getChainId c w)"
| "exec c Call_getProvider w = resolved (lift (getProvider (params c) (win w)), w)"
| "exec c (Call_isAuthorized r) w = resolved (isAuthorized c r w)"
| "exec c (Call_switchChain confirm chainId) w = resolved (switchChain c confirm chainId w)"
| "exec c (Call_onAccountsChanged accounts) w = resolved (onAccountsChanged c accounts w)"
| "exec c (Call_onChainChanged chain) w = resolved (onChainChanged c chain w)"
| "exec c (Call_onConnect chainId) w = resolved (onConnect c chainId w)"
| "exec c (Call_onDisconnect error) w = resolved (onDisconnect c error w)"

text \<open>
  What a call does to the entry \<open>"<id>.connected"\<close> of the storage: \<open>shimAdded\<close> says that
  the entry was not there (as \<open>true\<close>) before the call and is the only difference after
  it; \<open>shimRemoved\<close> says that the entry was there before and its removal is the only
  difference.
\<close>

definition shimAdded ::
  "'p config \<Rightarrow> (string \<rightharpoonup> bool) option \<Rightarrow> (string \<rightharpoonup> bool) option \<Rightarrow> bool" where
  "shimAdded c before after =
     (case (before, connectedKey c) of
        (Some items, Inr key) \<Rightarrow> items key \<noteq> Some True \<and> after = Some (items(key \<mapsto> True))
      | _ \<Rightarrow> False)"

definition shimRemoved ::
  "'p config \<Rightarrow> (string \<rightharpoonup> bool) option \<Rightarrow> (string \<rightharpoonup> bool) option \<Rightarrow> bool" where
  "shimRemoved c before after =
     (case (before, connectedKey c) of
        (Some items, Inr key) \<Rightarrow> items key \<noteq> None \<and> after = Some (items(key := None))
      | _ \<Rightarrow> False)"

section \<open>A simulated wallet\<close>

text \<open>
  A small wallet and configuration on which the theorems below are instantiated. The
  wallet holds its accounts, its current chain (as the hexadecimal string it reports) and
  the chains it knows. It rejects a switch to a chain it does not know with
  \<open>sim_switchError\<close>, adds and selects any chain it is asked to add, and rejects
  \<open>eth_requestAccounts\<close> with code 4001 when \<open>sim_rejects\<close> is set.
\<close>

record sim =
  sim_accounts :: "string list"
  sim_chainId :: string
  sim_chains :: "string list"
  sim_switchError :: error
  sim_rejects :: bool

definition sim_numberToHex :: "int \<Rightarrow> error + string" where
  "sim_numberToHex n =
     (if n = 1 then Inr ''0x1'' else if n = 5 then Inr ''0x5''
      else Inl (OtherError ''IntegerOutOfRangeError''))"

definition sim_normalizeChainId :: "string \<Rightarrow> error + int" where
  "sim_normalizeChainId s =
     (if s = ''0x1'' \<or> s = ''1'' then Inr 1 else if s = ''0x5'' \<or> s = ''5'' then Inr 5
      else Inl (OtherError ''Cannot normalize chainId''))"

definition sim_numberToString :: "int \<Rightarrow> string" where
  "sim_numberToString n = (if n = 1 then ''1'' else if n = 5 then ''5'' else ''NaN'')"

definition sim_config :: "parameters \<Rightarrow> chain list \<Rightarrow> sim config" where
  "sim_config ps chs =
     \<lparr>params = ps, chains = chs,
      getAddress = (\<lambda>address index. Inr address),
      numberToHex = sim_numberToHex,
      normalizeChainId = sim_normalizeChainId,
      numberToString = sim_numberToString,
      eth_accounts = (\<lambda>p s. (Resolved (sim_accounts s), s)),
      eth_requestAccounts = (\<lambda>p s.
        if sim_rejects s then (Rejected (ProviderError (Some 4001) None), s)
        else (Resolved (sim_accounts s), s)),
      eth_chainId = (\<lambda>p s. (Resolved (sim_chainId s), s)),
      wallet_requestPermissions = (\<lambda>p s. (Resolved [Some [Some (sim_accounts s)]], s)),
      wallet_switchEthereumChain = (\<lambda>p hexId s.
        if hexId \<in> set (sim_chains s) then (Resolved (), s\<lparr>sim_chainId := hexId\<rparr>)
        else (Rejected (sim_switchError s), s)),
      wallet_addEthereumChain = (\<lambda>p a s.
        (Resolved (), s\<lparr>sim_chainId := add_chainId a, sim_chains := add_chainId a # sim_chains s\<rparr>))\<rparr>"

definition sim_world :: "window option \<Rightarrow> (string \<rightharpoonup> bool) option \<Rightarrow> sim \<Rightarrow> sim world" where
  "sim_world wn items s =
     \<lparr>win = wn, storage = items, wallet_state = s, requests = [], listeners = (\<lambda>i. []),
      windowListeners = [], timeouts = [], emitted = [], connectListenerCount = 0,
      closures = 0\<rparr>"

text \<open>The wallet on mainnet with one account; the window with that wallet; the default
  parameters; two configured chains.\<close>

definition sim_wallet :: sim where
  "sim_wallet =
     \<lparr>sim_accounts = [''0xA0Cf798816D4b9b9866b5330EEa46a18382f251e''], sim_chainId = ''0x1'',
      sim_chains = [''0x1''], sim_switchError = ProviderError (Some 4902) None,
      sim_rejects = False\<rparr>"

definition sim_provider :: provider where
  "sim_provider = Provider 1 [''isMetaMask''] None True True"

definition sim_window :: window where
  "sim_window = \<lparr>coinbaseWalletExtension = None, ethereum = Some sim_provider, phantom = None\<rparr>"

definition empty_window :: window where
  "empty_window = \<lparr>coinbaseWalletExtension = None, ethereum = None, phantom = None\<rparr>"

definition default_parameters :: parameters where
  "default_parameters = \<lparr>shimDisconnect = None, unstable_shimAsyncInject = None, target = None\<rparr>"

definition mainnet :: chain where
  "mainnet =
     \<lparr>chain_id = 1, chain_name = ''Ethereum'',
      chain_nativeCurrency = \<lparr>currency_name = ''Ether'', currency_symbol = ''ETH'', currency_decimals = 18\<rparr>,
      chain_rpcUrls_public_http = Some [''https://cloudflare-eth.com''],
      chain_blockExplorers = Some [(''etherscan'', \<lparr>explorer_name = ''Etherscan'', explorer_url = ''https://etherscan.io''\<rparr>),
                                   (''default'', \<lparr>explorer_name = ''Etherscan'', explorer_url = ''https://etherscan.io''\<rparr>)]\<rparr>"

definition goerli :: chain where
  "goerli =
     \<lparr>chain_id = 5, chain_name = ''Goerli'',
      chain_nativeCurrency = \<lparr>currency_name = ''Goerli Ether'', currency_symbol = ''ETH'', currency_decimals = 18\<rparr>,
      chain_rpcUrls_public_http = Some [''https://rpc.ankr.com/eth_goerli'', ''https://goerli.example''],
      chain_blockExplorers = Some [(''etherscan'', \<lparr>explorer_name = ''Etherscan'', explorer_url = ''https://goerli.etherscan.io''\<rparr>),
                                   (''default'', \<lparr>explorer_name = ''Blockscout'', explorer_url = ''https://eth-goerli.blockscout.com''\<rparr>)]\<rparr>"

text \<open>Parameters with the shim off and the detection of asynchronous injection on.\<close>

definition asyncInject_parameters :: parameters where
  "asyncInject_parameters =
     \<lparr>shimDisconnect = Some False, unstable_shimAsyncInject = Some (AsyncInjectBool True),
      target = None\<rparr>"

section \<open>Properties\<close>

subsection \<open>The provider locator\<close>




lemma toUpperCase_r: "toUpperCase CHR ''r'' = CHR ''R''"
  by code_simp

lemma stringTarget_rainbow:
  "stringTarget ''rainbow'' =
     Inr \<lparr>target_id = ''rainbow'', target_name = ''Rainbow'',
          target_provider = Flag ''isRainbow'', target_features = None\<rparr>"
  by (simp add: stringTarget_def targetMap_def capitalize_def toUpperCase_r)

text \<open>A target identifier without an entry in \<open>targetMap\<close> gets a descriptor whose
  \<open>provider\<close> is a flag name, and \<open>getProvider\<close> searches for such a descriptor with the
  condition that is always true.\<close>

lemma getProvider_synthesized:
  assumes "target ps = Some (TargetId (ch # rest))" and "targetMap (ch # rest) = None"
  shows "getProvider ps (Some w) = Inr (findProvider (Some w) (CFun (\<lambda>p. True)))"
  using assms by (simp add: getProvider_def getWindowProvider_def stringTarget_def capitalize_def)

lemma findProvider_any:
  "findProvider (Some w) (CFun (\<lambda>p. True)) =
     (case ethereum w of
        None \<Rightarrow> None
      | Some eth \<Rightarrow> (case providers eth of
                       None \<Rightarrow> Some eth
                     | Some [] \<Rightarrow> None
                     | Some (p # ps) \<Rightarrow> Some p))"
  by (simp add: findProvider_def split: option.splits list.splits)

text \<open>
  Claim C4. The target \<open>rainbow\<close> has no entry in \<open>targetMap\<close>, so its descriptor requires
  the flag \<open>isRainbow\<close>. The claim is that \<open>getProvider\<close> returns the first sub-provider
  that sets this flag, or the ambient provider only if it sets it. The code returns the
  first sub-provider whatever its flags, and the ambient provider whatever its flags:
  here a provider that sets \<open>isMetaMask\<close> only, in both situations.
\<close>

theorem getProvider_ignores_synthesized_flag:
  "getWindowProvider \<lparr>shimDisconnect = None, unstable_shimAsyncInject = None,
                      target = Some (TargetId ''rainbow'')\<rparr>
     = Inr \<lparr>target_id = ''rainbow'', target_name = ''Rainbow'',
            target_provider = Flag ''isRainbow'', target_features = None\<rparr>
   \<and> \<not> isProvider (CFlag ''isRainbow'') (Provider 1 [''isMetaMask''] None False False)
   \<and> isProvider (CFlag ''isRainbow'') (Provider 2 [''isRainbow''] None False False)
   \<and> getProvider \<lparr>shimDisconnect = None, unstable_shimAsyncInject = None,
                    target = Some (TargetId ''rainbow'')\<rparr>
        (Some \<lparr>coinbaseWalletExtension = None,
               ethereum = Some (Provider 0 []
                 (Some [Provider 1 [''isMetaMask''] None False False,
                        Provider 2 [''isRainbow''] None False False]) False False),
               phantom = None\<rparr>)
     = Inr (Some (Provider 1 [''isMetaMask''] None False False))
   \<and> getProvider \<lparr>shimDisconnect = None, unstable_shimAsyncInject = None,
                    target = Some (TargetId ''rainbow'')\<rparr>
        (Some \<lparr>coinbaseWalletExtension = None,
               ethereum = Some (Provider 1 [''isMetaMask''] None False False),
               phantom = None\<rparr>)
     = Inr (Some (Provider 1 [''isMetaMask''] None False False))"
  by (simp add: getProvider_def getWindowProvider_def stringTarget_rainbow findProvider_def)

subsection \<open>Awaiting and catching\<close>

lemma await_simps [simp]:
  "await (Resolved a, w) k = k a w"
  "await (Rejected e, w) k = (Rejected e, w)"
  "await (Pending, w) k = (Pending, w)"
  by (simp_all add: await_def)

lemma catch_simps [simp]:
  "catch (Resolved a, w) h = (Resolved a, w)"
  "catch (Rejected e, w) h = h e w"
  "catch (Pending, w) h = (Pending, w)"
  by (simp_all add: catch_def)

lemma mapThrowing_Nil [simp]: "mapThrowing f [] = Inr []"
  by (simp add: mapThrowing_def)

lemmas sim_defs =
  mapThrowing_def sim_config_def sim_world_def sim_wallet_def sim_provider_def sim_window_def
  default_parameters_def sim_numberToHex_def sim_normalizeChainId_def
  getProvider_def getWindowProvider_def injected_descriptor_def

lemmas connect_defs =
  connect_def withProvider_def connect_try_def connect_accounts_def connect_chain_def
  isDisconnected_def addShim_def shim_def connectedKey_def hasLength_def request_def lift_def
  getChainId_def listenConnected_def bound_def provider_on_def provider_removeListener_def

subsection \<open>The chain switch\<close>

lemma switchChain_rejected_request:
  assumes "getProvider (params c) (win w) = Inr (Some provider)"
    and "find (\<lambda>x. chain_id x = chainId) (chains c) = Some ch"
    and "numberToHex c chainId = Inr hexId"
    and "wallet_switchEthereumChain c provider hexId (wallet_state w) = (Rejected error, s1)"
  shows "switchChain c confirm chainId w =
           switchChain_catch c provider hexId chainId ch error
             (w\<lparr>wallet_state := s1,
                requests := requests w @ [(pid provider, Wallet_switchEthereumChain hexId)]\<rparr>)"
  using assms by (simp add: switchChain_def withProvider_def switchAndConfirm_def request_def)

lemma addEthereumChainParameter_fields:
  "addEthereumChainParameter hexId ch =
      \<lparr>add_chainId = hexId, add_chainName = chain_name ch,
       add_nativeCurrency = chain_nativeCurrency ch,
       add_rpcUrls = [case chain_rpcUrls_public_http ch of
                        None \<Rightarrow> [] | Some [] \<Rightarrow> [] | Some (url # rest) \<Rightarrow> url],
       add_blockExplorerUrls =
         (case chain_blockExplorers ch of
            None \<Rightarrow> []
          | Some entries \<Rightarrow>
              (case map_of entries ''default'' of
                 None \<Rightarrow> []
               | Some d \<Rightarrow> explorer_url d
                   # map (\<lambda>e. explorer_url (snd e))
                       (filter (\<lambda>e. fst e \<noteq> ''default'') entries)))\<rparr>"
    by (simp add: addEthereumChainParameter_def rpcUrls_def blockExplorerUrls_def
          case_prod_unfold split: option.splits)

text \<open>
  Claim C1. Let \<open>switchChain\<close> be called with a chain id that \<open>config.chains\<close> holds, and
  let the wallet reject the switch request with an error whose \<open>code\<close> or whose
  \<open>data.originalError.code\<close> is 4902. Then the connector sends \<open>wallet_addEthereumChain\<close>
  with the hexadecimal id, the chain's name and native currency, one RPC URL, and the
  URL of the \<open>default\<close> block explorer followed by those of the other block explorers.
  If the wallet rejects that request, \<open>switchChain\<close> rejects with a
  \<open>UserRejectedRequestError\<close>. If the wallet accepts it, the chain id is asked for again:
  \<open>switchChain\<close> resolves with the chain of the registry if the answer is the requested
  id, and rejects with a \<open>UserRejectedRequestError\<close> if it is another id or if asking
  fails. The call stays pending only if one of the two requests never settles.
\<close>

theorem switchChain_unrecognized_chain:
  assumes prov: "getProvider (params c) (win w) = Inr (Some provider)"
    and ch: "find (\<lambda>x. chain_id x = chainId) (chains c) = Some ch"
    and hex: "numberToHex c chainId = Inr hexId"
    and sw: "wallet_switchEthereumChain c provider hexId (wallet_state w) = (Rejected error, s1)"
    and unrec: "code error = Some 4902 \<or> originalErrorCode error = Some 4902"
    and add: "wallet_addEthereumChain c provider (addEthereumChainParameter hexId ch) s1 = (added, s2)"
    and w2: "w2 = w\<lparr>wallet_state := s2,
                  requests := requests w @
                    [(pid provider, Wallet_switchEthereumChain hexId),
                     (pid provider, Wallet_addEthereumChain (addEthereumChainParameter hexId ch))]\<rparr>"
  shows "addEthereumChainParameter hexId ch =
           \<lparr>add_chainId = hexId, add_chainName = chain_name ch,
            add_nativeCurrency = chain_nativeCurrency ch,
            add_rpcUrls = [case chain_rpcUrls_public_http ch of
                             None \<Rightarrow> [] | Some [] \<Rightarrow> [] | Some (url # rest) \<Rightarrow> url],
            add_blockExplorerUrls =
              (case chain_blockExplorers ch of
                 None \<Rightarrow> []
               | Some entries \<Rightarrow>
                   (case map_of entries ''default'' of
                      None \<Rightarrow> []
                    | Some d \<Rightarrow> explorer_url d
                        # map (\<lambda>e. explorer_url (snd e))
                            (filter (\<lambda>e. fst e \<noteq> ''default'') entries)))\<rparr>
         \<and> switchChain c confirm chainId w =
           (case added of
              Rejected e \<Rightarrow> (Rejected (UserRejectedRequestError e), w2)
            | Pending \<Rightarrow> (Pending, w2)
            | Resolved u \<Rightarrow>
                (case getChainId c w2 of
                   (Resolved currentChainId, w3) \<Rightarrow>
                     (if currentChainId = chainId then Resolved ch
                      else Rejected (UserRejectedRequestError (UserRejectedRequestError
                             (PlainError ''User rejected switch after adding network.''))), w3)
                 | (Rejected e, w3) \<Rightarrow> (Rejected (UserRejectedRequestError e), w3)
                 | (Pending, w3) \<Rightarrow> (Pending, w3)))"
proof -
  have "switchChain c confirm chainId w =
          catch (addChain c provider hexId chainId ch
                   (w\<lparr>wallet_state := s1,
                      requests := requests w @ [(pid provider, Wallet_switchEthereumChain hexId)]\<rparr>))
            (\<lambda>error w. (Rejected (UserRejectedRequestError error), w))"
    using switchChain_rejected_request [OF prov ch hex sw] unrec
    by (auto simp add: switchChain_catch_def)
  then have "switchChain c confirm chainId w =
           (case added of
              Rejected e \<Rightarrow> (Rejected (UserRejectedRequestError e), w2)
            | Pending \<Rightarrow> (Pending, w2)
            | Resolved u \<Rightarrow>
                (case getChainId c w2 of
                   (Resolved currentChainId, w3) \<Rightarrow>
                     (if currentChainId = chainId then Resolved ch
                      else Rejected (UserRejectedRequestError (UserRejectedRequestError
                             (PlainError ''User rejected switch after adding network.''))), w3)
                 | (Rejected e, w3) \<Rightarrow> (Rejected (UserRejectedRequestError e), w3)
                 | (Pending, w3) \<Rightarrow> (Pending, w3)))"
    using add unfolding w2 addChain_def request_def
    by (cases added; cases "getChainId c
         (w\<lparr>wallet_state := s2,
            requests := requests w @
              [(pid provider, Wallet_switchEthereumChain hexId),
               (pid provider, Wallet_addEthereumChain (addEthereumChainParameter hexId ch))]\<rparr>)")
       (auto split: outcome.splits)
  then show ?thesis
    using addEthereumChainParameter_fields by blast
qed

text \<open>The simulated wallet is on mainnet and does not know Goerli; it is asked to
  switch to Goerli, one of the two configured chains.\<close>

theorem switchChain_unrecognized_chain_witness:
  "fst (switchChain (sim_config default_parameters [mainnet, goerli]) NoChange 5
          (sim_world (Some sim_window) None sim_wallet)) = Resolved goerli
   \<and> requests (snd (switchChain (sim_config default_parameters [mainnet, goerli]) NoChange 5
          (sim_world (Some sim_window) None sim_wallet)))
     = [(1, Wallet_switchEthereumChain ''0x5''),
        (1, Wallet_addEthereumChain
              \<lparr>add_chainId = ''0x5'', add_chainName = ''Goerli'',
               add_nativeCurrency = \<lparr>currency_name = ''Goerli Ether'', currency_symbol = ''ETH'',
                                     currency_decimals = 18\<rparr>,
               add_rpcUrls = [''https://rpc.ankr.com/eth_goerli''],
               add_blockExplorerUrls = [''https://eth-goerli.blockscout.com'',
                                        ''https://goerli.etherscan.io'']\<rparr>),
        (1, Eth_chainId)]"
  using switchChain_unrecognized_chain
    [of "sim_config default_parameters [mainnet, goerli]"
        "sim_world (Some sim_window) None sim_wallet" sim_provider 5 goerli "''0x5''"
        "ProviderError (Some 4902) None" sim_wallet
        "Resolved ()" "sim_wallet\<lparr>sim_chainId := ''0x5'', sim_chains := [''0x5'', ''0x1'']\<rparr>"
        _ NoChange, OF _ _ _ _ _ _ refl]
  by (simp add: sim_defs mainnet_def goerli_def getChainId_def withProvider_def request_def
        lift_def addEthereumChainParameter_def rpcUrls_def blockExplorerUrls_def)

lemma find_None_absent:
  "find (\<lambda>x. chain_id x = chainId) chs = None \<longleftrightarrow> chainId \<notin> chain_id ` set chs"
  by (auto simp add: find_None_iff)

text \<open>
  Claim C8, amended. Let a provider be found. If the requested chain id is not the id of
  any chain in \<open>config.chains\<close>, \<open>switchChain\<close> rejects with a \<open>SwitchChainError\<close> around a
  \<open>ChainNotConfiguredError\<close> and changes nothing. If the chain is configured and the
  wallet rejects the switch request with an error that carries 4902 neither as its
  \<open>code\<close> nor as its \<open>data.originalError.code\<close>, \<open>switchChain\<close> rejects with a
  \<open>UserRejectedRequestError\<close> around that error when its code is 4001 and with a
  \<open>SwitchChainError\<close> around it otherwise.
\<close>

theorem switchChain_failures:
  assumes prov: "getProvider (params c) (win w) = Inr (Some provider)"
  shows "(chainId \<notin> chain_id ` set (chains c) \<longrightarrow>
            switchChain c confirm chainId w = (Rejected (SwitchChainError ChainNotConfiguredError), w))
       \<and> (find (\<lambda>x. chain_id x = chainId) (chains c) = Some ch
            \<and> numberToHex c chainId = Inr hexId
            \<and> wallet_switchEthereumChain c provider hexId (wallet_state w) = (Rejected error, s)
            \<and> code error \<noteq> Some 4902 \<and> originalErrorCode error \<noteq> Some 4902 \<longrightarrow>
            switchChain c confirm chainId w =
              (Rejected (if code error = Some 4001 then UserRejectedRequestError error
                         else SwitchChainError error),
               w\<lparr>wallet_state := s,
                  requests := requests w @ [(pid provider, Wallet_switchEthereumChain hexId)]\<rparr>))"
proof (intro conjI impI)
  assume "chainId \<notin> chain_id ` set (chains c)"
  then have "find (\<lambda>x. chain_id x = chainId) (chains c) = None"
    by (simp add: find_None_absent)
  with prov show "switchChain c confirm chainId w = (Rejected (SwitchChainError ChainNotConfiguredError), w)"
    by (simp add: switchChain_def withProvider_def)
next
  assume h: "find (\<lambda>x. chain_id x = chainId) (chains c) = Some ch
            \<and> numberToHex c chainId = Inr hexId
            \<and> wallet_switchEthereumChain c provider hexId (wallet_state w) = (Rejected error, s)
            \<and> code error \<noteq> Some 4902 \<and> originalErrorCode error \<noteq> Some 4902"
  then show "switchChain c confirm chainId w =
              (Rejected (if code error = Some 4001 then UserRejectedRequestError error
                         else SwitchChainError error),
               w\<lparr>wallet_state := s,
                  requests := requests w @ [(pid provider, Wallet_switchEthereumChain hexId)]\<rparr>)"
    using switchChain_rejected_request [OF prov, of chainId ch hexId error s confirm]
    by (simp add: switchChain_catch_def)
qed

text \<open>
  Without the two conditions the statement fails. With no window there is no provider,
  and a switch to the unconfigured chain 7 rejects with \<open>ProviderNotFoundError\<close>. And when
  the wallet rejects the switch with code 4001 and \<open>data.originalError.code\<close> 4902, the
  chain is added and \<open>switchChain\<close> resolves.
\<close>

theorem switchChain_failures_counterexample:
  "7 \<notin> chain_id ` set (chains (sim_config default_parameters [mainnet, goerli]))
   \<and> switchChain (sim_config default_parameters [mainnet, goerli]) NoChange 7
        (sim_world None None sim_wallet)
     = (Rejected ProviderNotFoundError, sim_world None None sim_wallet)
   \<and> wallet_switchEthereumChain (sim_config default_parameters [mainnet, goerli]) sim_provider ''0x5''
        (sim_wallet\<lparr>sim_switchError := ProviderError (Some 4001) (Some 4902)\<rparr>)
     = (Rejected (ProviderError (Some 4001) (Some 4902)),
        sim_wallet\<lparr>sim_switchError := ProviderError (Some 4001) (Some 4902)\<rparr>)
   \<and> fst (switchChain (sim_config default_parameters [mainnet, goerli]) NoChange 5
        (sim_world (Some sim_window) None
           (sim_wallet\<lparr>sim_switchError := ProviderError (Some 4001) (Some 4902)\<rparr>)))
     = Resolved goerli"
  by (simp add: sim_defs mainnet_def goerli_def switchChain_def withProvider_def
        switchAndConfirm_def switchChain_catch_def addChain_def getChainId_def request_def
        lift_def addEthereumChainParameter_def)

text \<open>With the simulated wallet: the unconfigured chain 7; a wallet that rejects the
  switch to Goerli with code 4001; one that rejects it with code -32603.\<close>

theorem switchChain_failures_witness:
  "switchChain (sim_config default_parameters [mainnet, goerli]) NoChange 7
        (sim_world (Some sim_window) None sim_wallet)
     = (Rejected (SwitchChainError ChainNotConfiguredError), sim_world (Some sim_window) None sim_wallet)
   \<and> fst (switchChain (sim_config default_parameters [mainnet, goerli]) NoChange 5
        (sim_world (Some sim_window) None
           (sim_wallet\<lparr>sim_switchError := ProviderError (Some 4001) None\<rparr>)))
     = Rejected (UserRejectedRequestError (ProviderError (Some 4001) None))
   \<and> fst (switchChain (sim_config default_parameters [mainnet, goerli]) NoChange 5
        (sim_world (Some sim_window) None
           (sim_wallet\<lparr>sim_switchError := ProviderError (Some (- 32603)) None\<rparr>)))
     = Rejected (SwitchChainError (ProviderError (Some (- 32603)) None))"
  using switchChain_failures
          [of "sim_config default_parameters [mainnet, goerli]"
              "sim_world (Some sim_window) None sim_wallet" sim_provider 7 NoChange]
        switchChain_failures
          [of "sim_config default_parameters [mainnet, goerli]"
              "sim_world (Some sim_window) None
                 (sim_wallet\<lparr>sim_switchError := ProviderError (Some 4001) None\<rparr>)"
              sim_provider 5 NoChange goerli "''0x5''" "ProviderError (Some 4001) None"
              "sim_wallet\<lparr>sim_switchError := ProviderError (Some 4001) None\<rparr>"]
        switchChain_failures
          [of "sim_config default_parameters [mainnet, goerli]"
              "sim_world (Some sim_window) None
                 (sim_wallet\<lparr>sim_switchError := ProviderError (Some (- 32603)) None\<rparr>)"
              sim_provider 5 NoChange goerli "''0x5''" "ProviderError (Some (- 32603)) None"
              "sim_wallet\<lparr>sim_switchError := ProviderError (Some (- 32603)) None\<rparr>"]
  by (simp add: sim_defs mainnet_def goerli_def)

subsection \<open>The connect event of the provider\<close>

lemma getAccounts_empty:
  assumes "getProvider (params c) (win w) = Inr (Some p)"
    and "eth_accounts c p (wallet_state w) = (Resolved [], s)"
  shows "getAccounts c w =
           (Resolved [], w\<lparr>wallet_state := s, requests := requests w @ [(pid p, Eth_accounts)]\<rparr>)"
  using assms by (simp add: getAccounts_def withProvider_def request_def lift_def)

text \<open>
  Claim C10. If the wallet answers \<open>eth_accounts\<close> with the empty list when \<open>onConnect\<close>
  runs, \<open>onConnect\<close> resolves and the world after it is the world before it but for the
  wallet's own state and the log of the request: nothing is emitted, the listeners of the
  providers and of the window are the same, and the storage is the same.
\<close>

theorem onConnect_no_accounts:
  assumes "getProvider (params c) (win w) = Inr (Some p)"
    and "eth_accounts c p (wallet_state w) = (Resolved [], s)"
  shows "onConnect c connectInfo_chainId w =
           (Resolved (), w\<lparr>wallet_state := s, requests := requests w @ [(pid p, Eth_accounts)]\<rparr>)
         \<and> emitted (snd (onConnect c connectInfo_chainId w)) = emitted w
         \<and> listeners (snd (onConnect c connectInfo_chainId w)) = listeners w
         \<and> windowListeners (snd (onConnect c connectInfo_chainId w)) = windowListeners w
         \<and> storage (snd (onConnect c connectInfo_chainId w)) = storage w"
  using getAccounts_empty [OF assms] by (simp add: onConnect_def)

text \<open>The simulated wallet without accounts, with the shim enabled and a storage.\<close>

theorem onConnect_no_accounts_witness:
  "onConnect (sim_config default_parameters [mainnet, goerli]) ''0x1''
      (sim_world (Some sim_window) (Some Map.empty) (sim_wallet\<lparr>sim_accounts := []\<rparr>))
   = (Resolved (),
      (sim_world (Some sim_window) (Some Map.empty) (sim_wallet\<lparr>sim_accounts := []\<rparr>))
        \<lparr>requests := [(1, Eth_accounts)]\<rparr>)"
  using onConnect_no_accounts
          [of "sim_config default_parameters [mainnet, goerli]"
              "sim_world (Some sim_window) (Some Map.empty) (sim_wallet\<lparr>sim_accounts := []\<rparr>)"
              sim_provider "sim_wallet\<lparr>sim_accounts := []\<rparr>" "''0x1''"]
  by (simp add: sim_defs)


subsection \<open>What leaves the storage alone\<close>

lemma await_storage:
  assumes "storage (snd r) = S" and "\<And>a w. storage w = S \<Longrightarrow> storage (snd (k a w)) = S"
  shows "storage (snd (await r k)) = S"
  using assms by (cases r) (auto simp add: await_def split: outcome.splits)

lemma catch_storage:
  assumes "storage (snd r) = S" and "\<And>e w. storage w = S \<Longrightarrow> storage (snd (h e w)) = S"
  shows "storage (snd (catch r h)) = S"
  using assms by (cases r) (auto simp add: catch_def split: outcome.splits)

lemma request_storage [simp]: "storage (snd (request provider r answer w)) = storage w"
  by (simp add: request_def split: prod.splits)

lemma withProvider_storage:
  assumes "\<And>provider. storage (snd (k provider w)) = storage w"
  shows "storage (snd (withProvider c w k)) = storage w"
  using assms by (simp add: withProvider_def split: sum.splits option.splits)

lemma getAccounts_storage [simp]: "storage (snd (getAccounts c w)) = storage w"
  unfolding getAccounts_def
  by (intro withProvider_storage await_storage) simp_all

lemma getChainId_storage [simp]: "storage (snd (getChainId c w)) = storage w"
  unfolding getChainId_def
  by (intro withProvider_storage await_storage) simp_all

lemma bound_storage [simp]: "storage (snd (bound m w)) = storage w"
  by (simp add: bound_def)

lemma provider_on_storage [simp]: "storage (provider_on p ev h w) = storage w"
  by (simp add: provider_on_def)

lemma provider_removeListener_storage [simp]: "storage (provider_removeListener p ev h w) = storage w"
  by (simp add: provider_removeListener_def)

lemma listenConnected_storage [simp]: "storage (listenConnected p w) = storage w"
  by (simp add: listenConnected_def bound_def)

lemma listenDisconnected_storage [simp]: "storage (listenDisconnected p w) = storage w"
  by (simp add: listenDisconnected_def bound_def)

lemma emit_storage [simp]: "storage (emit ev w) = storage w"
  by (simp add: emit_def)

lemma switchAndConfirm_storage [simp]:
  "storage (snd (switchAndConfirm c provider hexId chainId confirm w)) = storage w"
  unfolding switchAndConfirm_def request_def
  by (auto split: prod.splits outcome.splits confirmation.splits)

lemma addChain_storage: "storage w = S \<Longrightarrow> storage (snd (addChain c provider hexId chainId ch w)) = S"
  unfolding addChain_def
  by (intro await_storage) simp_all

lemma switchChain_catch_storage:
  "storage w = S \<Longrightarrow> storage (snd (switchChain_catch c provider hexId chainId ch error w)) = S"
  unfolding switchChain_catch_def
  by (auto intro!: catch_storage addChain_storage)

lemma switchChain_storage [simp]: "storage (snd (switchChain c confirm chainId w)) = storage w"
  unfolding switchChain_def
  by (intro withProvider_storage)
     (auto split: option.splits sum.splits intro!: catch_storage await_storage switchChain_catch_storage)

lemma requestPermissions_storage:
  "storage w = S \<Longrightarrow> storage (snd (requestPermissions c provider accounts w)) = S"
  unfolding requestPermissions_def
  by (intro catch_storage await_storage) (auto split: option.splits sum.splits)

lemma selectAccounts_storage: "storage (snd (selectAccounts c provider w)) = storage w"
  unfolding selectAccounts_def
  by (intro catch_storage await_storage) (auto intro: requestPermissions_storage)

lemma connect_accounts_storage [simp]: "storage (snd (connect_accounts c provider w)) = storage w"
  unfolding connect_accounts_def
  by (auto split: sum.splits intro!: await_storage selectAccounts_storage)

subsection \<open>connect\<close>

lemma getProvider_descriptor:
  assumes "getProvider ps wn = Inr (Some provider)"
  shows "\<exists>d. getWindowProvider ps = Inr d"
  using assms by (auto simp add: getProvider_def split: option.splits sum.splits)

lemma connectedKey_found:
  assumes "getProvider (params c) wn = Inr (Some provider)"
  shows "\<exists>key. connectedKey c = Inr key"
  using getProvider_descriptor [OF assms] by (auto simp add: connectedKey_def)

lemma addShim_found:
  assumes "getProvider (params c) wn = Inr (Some provider)"
  shows "\<exists>w'. addShim c w = Inr w'"
  using connectedKey_found [OF assms] by (auto simp add: addShim_def split: option.splits)

text \<open>
  Claim C7. Let \<open>connect\<close> be called with a chain id, let it obtain its accounts and the
  provider's current chain id, and let that id differ from the requested one. If
  \<open>switchChain\<close>, called at that point, rejects with whatever error, \<open>connect\<close> resolves with
  the accounts and with the chain id the provider had before the switch was tried.
\<close>

theorem connect_switch_failure:
  assumes prov: "getProvider (params c) (win w) = Inr (Some provider)"
    and acc: "connect_accounts c provider w = (Resolved accounts, w1)"
    and cur: "getChainId c (listenConnected provider w1) = (Resolved currentChainId, w2)"
    and differs: "currentChainId \<noteq> requested"
    and sw: "fst (switchChain c confirm requested w2) = Rejected error"
  shows "fst (connect c confirm (Some requested) w)
           = Resolved \<lparr>conn_accounts = accounts, conn_chainId = currentChainId\<rparr>"
proof -
  obtain w3 where w3: "switchChain c confirm requested w2 = (Rejected error, w3)"
    using sw by (cases "switchChain c confirm requested w2") auto
  obtain w4 where w4: "addShim c w2 = Inr w4"
    using addShim_found [OF prov] by blast
  obtain w5 where w5: "addShim c w3 = Inr w5"
    using addShim_found [OF prov] by blast
  show ?thesis
    using prov acc cur differs w3 w4 w5
    by (simp add: connect_def withProvider_def connect_try_def connect_chain_def)
qed


text \<open>The simulated wallet is on mainnet; \<open>connect\<close> is asked for chain 7, which is not
  configured, so that \<open>switchChain\<close> rejects.\<close>

theorem connect_switch_failure_witness:
  "fst (connect (sim_config default_parameters [mainnet, goerli]) NoChange (Some 7)
          (sim_world (Some sim_window) (Some Map.empty) sim_wallet))
     = Resolved \<lparr>conn_accounts = [''0xA0Cf798816D4b9b9866b5330EEa46a18382f251e''], conn_chainId = 1\<rparr>"
proof -
  let ?c = "sim_config default_parameters [mainnet, goerli]"
  let ?w = "sim_world (Some sim_window) (Some Map.empty) sim_wallet"
  let ?w1 = "snd (connect_accounts ?c sim_provider ?w)"
  let ?w2 = "snd (getChainId ?c (listenConnected sim_provider ?w1))"
  have prov: "getProvider (params ?c) (win ?w) = Inr (Some sim_provider)"
    by (simp add: sim_defs)
  have "fst (connect_accounts ?c sim_provider ?w)
          = Resolved [''0xA0Cf798816D4b9b9866b5330EEa46a18382f251e'']"
    by (simp add: sim_defs connect_accounts_def isDisconnected_def shim_def connectedKey_def
          hasLength_def request_def lift_def)
  then have acc: "connect_accounts ?c sim_provider ?w
          = (Resolved [''0xA0Cf798816D4b9b9866b5330EEa46a18382f251e''], ?w1)"
    by (metis prod.collapse)
  have win1: "win ?w1 = Some sim_window" and st1: "wallet_state ?w1 = sim_wallet"
    by (simp_all add: sim_defs connect_accounts_def isDisconnected_def shim_def connectedKey_def
          hasLength_def request_def lift_def)
  have "fst (getChainId ?c (listenConnected sim_provider ?w1)) = Resolved 1"
    using win1 st1
    by (simp add: sim_defs getChainId_def withProvider_def request_def lift_def
          listenConnected_def bound_def provider_on_def provider_removeListener_def)
  then have cur: "getChainId ?c (listenConnected sim_provider ?w1) = (Resolved 1, ?w2)"
    by (metis prod.collapse)
  have win2: "win ?w2 = Some sim_window"
    using win1
    by (simp add: sim_defs getChainId_def withProvider_def request_def lift_def
          listenConnected_def bound_def provider_on_def provider_removeListener_def)
  have sw: "fst (switchChain ?c NoChange 7 ?w2) = Rejected (SwitchChainError ChainNotConfiguredError)"
    using win2
    by (simp add: sim_defs switchChain_def withProvider_def mainnet_def goerli_def)
  show ?thesis
    using connect_switch_failure [OF prov acc cur _ sw] by simp
qed

lemma await_cases:
  assumes "await r k = (res, w')"
  obtains (resolved) a w1 where "r = (Resolved a, w1)" and "k a w1 = (res, w')"
    | (rejected) e where "r = (Rejected e, w')" and "res = Rejected e"
    | (pending) "r = (Pending, w')" and "res = Pending"
  using assms by (cases r) (auto simp add: await_def split: outcome.splits)

lemma catch_cases:
  assumes "catch r h = (res, w')"
  obtains (resolved) a where "r = (Resolved a, w')" and "res = Resolved a"
    | (rejected) e w1 where "r = (Rejected e, w1)" and "h e w1 = (res, w')"
    | (pending) "r = (Pending, w')" and "res = Pending"
  using assms by (cases r) (auto simp add: catch_def split: outcome.splits)

lemma addShim_storage:
  assumes "addShim c w = Inr w'"
  shows "storage w' = storage w \<or> shimAdded c (storage w) (storage w')"
  using assms
  by (auto simp add: addShim_def shimAdded_def fun_upd_idem split: if_splits option.splits sum.splits)

lemma upd_None_changes: "a(b := None) \<noteq> a \<Longrightarrow> \<exists>y. a b = Some y"
  by (metis fun_upd_triv not_None_eq)

lemma removeShim_storage:
  assumes "removeShim c w = Inr w'"
  shows "storage w' = storage w \<or> shimRemoved c (storage w) (storage w')"
  using assms
  by (cases "shim c"; cases "storage w"; cases "connectedKey c")
     (auto simp add: removeShim_def shimRemoved_def dest: upd_None_changes)

lemma connect_switch_storage:
  "storage (snd (case chainId of
              None \<Rightarrow> (Resolved currentChainId, w)
            | Some requested \<Rightarrow>
                if requested \<noteq> 0 \<and> currentChainId \<noteq> requested then
                  catch (await (switchChain c confirm requested w)
                           (\<lambda>ch w. (Resolved (chain_id ch), w)))
                    (\<lambda>error w. (Resolved currentChainId, w))
                else (Resolved currentChainId, w))) = storage w"
  by (auto split: option.splits intro!: catch_storage await_storage)

lemma connect_chain_storage:
  assumes "connect_chain c confirm chainId provider accounts w = (res, w')"
  shows "storage w' = storage w \<or> (\<exists>x. res = Resolved x) \<and> shimAdded c (storage w) (storage w')"
proof -
  from assms show ?thesis
    unfolding connect_chain_def
  proof (cases rule: await_cases)
    case (resolved currentChainId w1)
    have s1: "storage w1 = storage w"
      using resolved(1) getChainId_storage [of c "listenConnected provider w"] by simp
    from resolved(2) show ?thesis
    proof (cases rule: await_cases)
      case (resolved cur w2)
      have s2: "storage w2 = storage w1"
        using resolved(1) connect_switch_storage [where chainId = chainId and currentChainId = currentChainId and w = w1 and c = c and confirm = confirm] by simp
      show ?thesis
        using resolved(2) addShim_storage [of c w2] s1 s2
        by (auto split: sum.splits)
    next
      case (rejected e)
      then show ?thesis
        using connect_switch_storage [where chainId = chainId and currentChainId = currentChainId and w = w1 and c = c and confirm = confirm] s1 by simp
    next
      case pending
      then show ?thesis
        using connect_switch_storage [where chainId = chainId and currentChainId = currentChainId and w = w1 and c = c and confirm = confirm] s1 by simp
    qed
  next
    case (rejected e)
    then show ?thesis
      using getChainId_storage [of c "listenConnected provider w"] by simp
  next
    case pending
    then show ?thesis
      using getChainId_storage [of c "listenConnected provider w"] by simp
  qed
qed

lemma connect_try_storage:
  assumes "connect_try c confirm chainId provider w = (res, w')"
  shows "storage w' = storage w \<or> (\<exists>x. res = Resolved x) \<and> shimAdded c (storage w) (storage w')"
  using assms unfolding connect_try_def
proof (cases rule: await_cases)
  case (resolved accounts w1)
  then show ?thesis
    using connect_chain_storage [of c confirm chainId provider accounts w1 res w']
      connect_accounts_storage [of c provider w] by simp
next
  case (rejected e)
  then show ?thesis using connect_accounts_storage [of c provider w] by simp
next
  case pending
  then show ?thesis using connect_accounts_storage [of c provider w] by simp
qed

lemma connect_storage:
  assumes "connect c confirm chainId w = (res, w')"
  shows "storage w' = storage w \<or> (\<exists>x. res = Resolved x) \<and> shimAdded c (storage w) (storage w')"
proof (cases "getProvider (params c) (win w)")
  case (Inl e)
  with assms show ?thesis by (simp add: connect_def withProvider_def)
next
  case (Inr po)
  show ?thesis
  proof (cases po)
    case None
    with Inr assms show ?thesis by (simp add: connect_def withProvider_def)
  next
    case (Some provider)
    with Inr assms have
      "catch (connect_try c confirm chainId provider w)
         (\<lambda>error w. (Rejected (connect_catch error), w)) = (res, w')"
      by (simp add: connect_def withProvider_def)
    then show ?thesis
    proof (cases rule: catch_cases)
      case (resolved a)
      then show ?thesis using connect_try_storage by blast
    next
      case (rejected e w1)
      then show ?thesis using connect_try_storage [of c confirm chainId provider w "Rejected e" w1] by auto
    next
      case pending
      then show ?thesis using connect_try_storage by blast
    qed
  qed
qed

lemma await_win:
  assumes "win (snd r) = W" and "\<And>a w. win w = W \<Longrightarrow> win (snd (k a w)) = W"
  shows "win (snd (await r k)) = W"
  using assms by (cases r) (auto simp add: await_def split: outcome.splits)

lemma catch_win:
  assumes "win (snd r) = W" and "\<And>e w. win w = W \<Longrightarrow> win (snd (h e w)) = W"
  shows "win (snd (catch r h)) = W"
  using assms by (cases r) (auto simp add: catch_def split: outcome.splits)

lemma request_win [simp]: "win (snd (request provider r answer w)) = win w"
  by (simp add: request_def split: prod.splits)

lemma withProvider_win:
  assumes "\<And>provider. win (snd (k provider w)) = win w"
  shows "win (snd (withProvider c w k)) = win w"
  using assms by (simp add: withProvider_def split: sum.splits option.splits)

lemma getAccounts_win [simp]: "win (snd (getAccounts c w)) = win w"
  unfolding getAccounts_def
  by (intro withProvider_win await_win) simp_all

lemma requestPermissions_win:
  "win w = W \<Longrightarrow> win (snd (requestPermissions c provider accounts w)) = W"
  unfolding requestPermissions_def
  by (intro catch_win await_win) (auto split: option.splits sum.splits)

lemma selectAccounts_win: "win (snd (selectAccounts c provider w)) = win w"
  unfolding selectAccounts_def
  by (intro catch_win await_win) (auto intro: requestPermissions_win)

lemma connect_accounts_win [simp]: "win (snd (connect_accounts c provider w)) = win w"
  unfolding connect_accounts_def
  by (auto split: sum.splits intro!: await_win selectAccounts_win)

lemma listenConnected_win [simp]: "win (listenConnected p w) = win w"
  by (simp add: listenConnected_def bound_def provider_on_def provider_removeListener_def)

lemma listenConnected_wallet_state [simp]: "wallet_state (listenConnected p w) = wallet_state w"
  by (simp add: listenConnected_def bound_def provider_on_def provider_removeListener_def)

lemma code_UserRejected: "code error = Some 4001 \<Longrightarrow> code (UserRejectedRequestError error) = Some 4001"
  by (cases error) simp_all

lemma code_ResourceUnavailable:
  "code error = Some (- 32002) \<Longrightarrow> code (ResourceUnavailableRpcError error) = Some (- 32002)"
  by (cases error) simp_all

lemma connect_requestAccounts_rejected:
  assumes prov: "getProvider (params c) (win w) = Inr (Some provider)"
    and wp: "getWindowProvider (params c) = Inr windowProvider"
    and disc: "isDisconnected c w = Inr disconnected"
    and plain: "\<not> ((case target_features windowProvider of
                      None \<Rightarrow> False
                    | Some features \<Rightarrow> ''wallet_requestPermissions'' \<in> set features)
                   \<and> disconnected)"
    and rej: "eth_requestAccounts c provider (wallet_state w) = (Rejected error, s)"
  shows "connect c confirm chainId w =
           (Rejected (if code error = Some 4001 then UserRejectedRequestError error
                      else if code error = Some (- 32002) then ResourceUnavailableRpcError error
                      else error),
            w\<lparr>wallet_state := s, requests := requests w @ [(pid provider, Eth_requestAccounts)]\<rparr>)"
proof -
  have "connect_accounts c provider w =
          (Rejected error,
           w\<lparr>wallet_state := s, requests := requests w @ [(pid provider, Eth_requestAccounts)]\<rparr>)"
    using wp disc plain rej
    by (auto simp add: connect_accounts_def hasLength_def request_def)
  with prov show ?thesis
    by (simp add: connect_def withProvider_def connect_try_def connect_catch_def)
qed

lemma connect_chainId_rejected:
  assumes prov: "getProvider (params c) (win w) = Inr (Some provider)"
    and acc: "connect_accounts c provider w = (Resolved accounts, w1)"
    and rej: "eth_chainId c provider (wallet_state w1) = (Rejected error, s)"
  shows "fst (connect c confirm chainId w) =
           Rejected (if code error = Some 4001 then UserRejectedRequestError error
                     else if code error = Some (- 32002) then ResourceUnavailableRpcError error
                     else error)"
proof -
  have "win w1 = win w"
    using connect_accounts_win [of c provider w] acc by simp
  with prov have "getProvider (params c) (win (listenConnected provider w1)) = Inr (Some provider)"
    by simp
  with rej have "fst (getChainId c (listenConnected provider w1)) = Rejected error"
    by (simp add: getChainId_def withProvider_def request_def)
  then obtain w2 where "getChainId c (listenConnected provider w1) = (Rejected error, w2)"
    by (metis prod.collapse)
  with prov acc show ?thesis
    by (simp add: connect_def withProvider_def connect_try_def connect_chain_def connect_catch_def)
qed

lemma connect_permissions_rejected:
  assumes prov: "getProvider (params c) (win w) = Inr (Some provider)"
    and wp: "getWindowProvider (params c) = Inr windowProvider"
    and feat: "target_features windowProvider = Some features"
              "''wallet_requestPermissions'' \<in> set features"
    and disc: "isDisconnected c w = Inr True"
    and raw: "eth_accounts c provider (wallet_state w) = (Resolved raw, s1)"
    and addr: "mapThrowing (getAddress c) raw = Inr accounts" "accounts \<noteq> []"
    and rej: "wallet_requestPermissions c provider s1 = (Rejected error, s2)"
    and cd: "code error = Some 4001 \<or> code error = Some (- 32002)"
  shows "connect c confirm chainId w =
           (Rejected (if code error = Some 4001
                      then UserRejectedRequestError (UserRejectedRequestError error)
                      else ResourceUnavailableRpcError error),
            w\<lparr>wallet_state := s2,
              requests := requests w @
                [(pid provider, Eth_accounts), (pid provider, Wallet_requestPermissions)]\<rparr>)"
proof -
  have ga: "getAccounts c w =
      (Resolved accounts,
       w\<lparr>wallet_state := s1, requests := requests w @ [(pid provider, Eth_accounts)]\<rparr>)"
    using prov raw addr(1) by (simp add: getAccounts_def withProvider_def request_def lift_def)
  show ?thesis
  proof (cases "code error = Some 4001")
    case True
    with prov wp feat disc ga addr(2) rej code_UserRejected [OF True] show ?thesis
      by (simp add: connect_def withProvider_def connect_try_def connect_accounts_def
            selectAccounts_def requestPermissions_def hasLength_def request_def connect_catch_def)
  next
    case False
    with cd have c2: "code error = Some (- 32002)" by simp
    with prov wp feat disc ga addr(2) rej code_ResourceUnavailable [OF c2] show ?thesis
      by (simp add: connect_def withProvider_def connect_try_def connect_accounts_def
            selectAccounts_def requestPermissions_def hasLength_def request_def connect_catch_def)
  qed
qed

lemma connect_requestAccounts_rejected_after_selection:
  assumes prov: "getProvider (params c) (win w) = Inr (Some provider)"
    and wp: "getWindowProvider (params c) = Inr windowProvider"
    and feat: "target_features windowProvider = Some features"
              "''wallet_requestPermissions'' \<in> set features"
    and disc: "isDisconnected c w = Inr True"
    and sel: "selectAccounts c provider w = (Resolved selected, w1)"
    and none: "\<not> hasLength selected"
    and rej: "eth_requestAccounts c provider (wallet_state w1) = (Rejected error, s)"
  shows "connect c confirm chainId w =
           (Rejected (if code error = Some 4001 then UserRejectedRequestError error
                      else if code error = Some (- 32002) then ResourceUnavailableRpcError error
                      else error),
            w1\<lparr>wallet_state := s, requests := requests w1 @ [(pid provider, Eth_requestAccounts)]\<rparr>)"
proof -
  have "connect_accounts c provider w =
          (Rejected error,
           w1\<lparr>wallet_state := s, requests := requests w1 @ [(pid provider, Eth_requestAccounts)]\<rparr>)"
    using wp feat disc sel none rej
    by (simp add: connect_accounts_def request_def)
  with prov show ?thesis
    by (simp add: connect_def withProvider_def connect_try_def connect_catch_def)
qed

text \<open>
  Claim C2, amended. Let \<open>connect\<close> be called with a provider found, and call it
  \<open>selecting\<close> when the target has the feature \<open>wallet_requestPermissions\<close> and the shim
  says disconnected. If the wallet rejects \<open>eth_requestAccounts\<close> (asked at once when not
  selecting, or after a selection that left no accounts) or rejects \<open>eth_chainId\<close> (asked
  once the accounts are there), \<open>connect\<close> rejects: with a \<open>UserRejectedRequestError\<close>
  around the wallet's error if its code is 4001, with a \<open>ResourceUnavailableRpcError\<close>
  around it if its code is -32002, and with the wallet's error itself for any other code.
  If the wallet rejects \<open>wallet_requestPermissions\<close> with code 4001 or -32002, \<open>connect\<close>
  rejects with a \<open>UserRejectedRequestError\<close>, respectively a
  \<open>ResourceUnavailableRpcError\<close>. Whenever \<open>connect\<close> rejects, the storage is what it was
  before the call.
\<close>

theorem connect_provider_rejection:
  assumes prov: "getProvider (params c) (win w) = Inr (Some provider)"
    and wp: "getWindowProvider (params c) = Inr windowProvider"
    and disc: "isDisconnected c w = Inr disconnected"
    and sel: "selecting \<longleftrightarrow>
                (case target_features windowProvider of
                   None \<Rightarrow> False
                 | Some features \<Rightarrow> ''wallet_requestPermissions'' \<in> set features)
                \<and> disconnected"
  shows
    "(\<forall>error s.
        \<not> selecting \<and> eth_requestAccounts c provider (wallet_state w) = (Rejected error, s) \<longrightarrow>
        connect c confirm chainId w =
          (Rejected (if code error = Some 4001 then UserRejectedRequestError error
                     else if code error = Some (- 32002) then ResourceUnavailableRpcError error
                     else error),
           w\<lparr>wallet_state := s, requests := requests w @ [(pid provider, Eth_requestAccounts)]\<rparr>))
   \<and> (\<forall>selected w1 error s.
        selecting \<and> selectAccounts c provider w = (Resolved selected, w1) \<and> \<not> hasLength selected
        \<and> eth_requestAccounts c provider (wallet_state w1) = (Rejected error, s) \<longrightarrow>
        connect c confirm chainId w =
          (Rejected (if code error = Some 4001 then UserRejectedRequestError error
                     else if code error = Some (- 32002) then ResourceUnavailableRpcError error
                     else error),
           w1\<lparr>wallet_state := s, requests := requests w1 @ [(pid provider, Eth_requestAccounts)]\<rparr>))
   \<and> (\<forall>raw s1 accounts error s2.
        selecting \<and> eth_accounts c provider (wallet_state w) = (Resolved raw, s1)
        \<and> mapThrowing (getAddress c) raw = Inr accounts \<and> accounts \<noteq> []
        \<and> wallet_requestPermissions c provider s1 = (Rejected error, s2)
        \<and> (code error = Some 4001 \<or> code error = Some (- 32002)) \<longrightarrow>
        connect c confirm chainId w =
          (Rejected (if code error = Some 4001
                     then UserRejectedRequestError (UserRejectedRequestError error)
                     else ResourceUnavailableRpcError error),
           w\<lparr>wallet_state := s2,
             requests := requests w @
               [(pid provider, Eth_accounts), (pid provider, Wallet_requestPermissions)]\<rparr>))
   \<and> (\<forall>accounts w1 error s.
        connect_accounts c provider w = (Resolved accounts, w1)
        \<and> eth_chainId c provider (wallet_state w1) = (Rejected error, s) \<longrightarrow>
        fst (connect c confirm chainId w) =
          Rejected (if code error = Some 4001 then UserRejectedRequestError error
                    else if code error = Some (- 32002) then ResourceUnavailableRpcError error
                    else error))
   \<and> (\<forall>err w'. connect c confirm chainId w = (Rejected err, w') \<longrightarrow> storage w' = storage w)"
proof (intro conjI allI impI)
  fix error s
  assume h: "\<not> selecting \<and> eth_requestAccounts c provider (wallet_state w) = (Rejected error, s)"
  then have plain: "\<not> ((case target_features windowProvider of
                      None \<Rightarrow> False
                    | Some features \<Rightarrow> ''wallet_requestPermissions'' \<in> set features)
                   \<and> disconnected)"
    using sel by simp
  from h have rej: "eth_requestAccounts c provider (wallet_state w) = (Rejected error, s)"
    by simp
  show "connect c confirm chainId w =
          (Rejected (if code error = Some 4001 then UserRejectedRequestError error
                     else if code error = Some (- 32002) then ResourceUnavailableRpcError error
                     else error),
           w\<lparr>wallet_state := s, requests := requests w @ [(pid provider, Eth_requestAccounts)]\<rparr>)"
    by (rule connect_requestAccounts_rejected [OF prov wp disc plain rej])
next
  fix selected w1 error s
  assume h: "selecting \<and> selectAccounts c provider w = (Resolved selected, w1) \<and> \<not> hasLength selected
        \<and> eth_requestAccounts c provider (wallet_state w1) = (Rejected error, s)"
  then obtain features where feat: "target_features windowProvider = Some features"
      "''wallet_requestPermissions'' \<in> set features" and d: "disconnected"
    using sel by (cases "target_features windowProvider") auto
  from h have a: "selectAccounts c provider w = (Resolved selected, w1)"
    and b: "\<not> hasLength selected"
    and r: "eth_requestAccounts c provider (wallet_state w1) = (Rejected error, s)"
    by simp_all
  from disc d have disc': "isDisconnected c w = Inr True" by simp
  show "connect c confirm chainId w =
          (Rejected (if code error = Some 4001 then UserRejectedRequestError error
                     else if code error = Some (- 32002) then ResourceUnavailableRpcError error
                     else error),
           w1\<lparr>wallet_state := s, requests := requests w1 @ [(pid provider, Eth_requestAccounts)]\<rparr>)"
    by (rule connect_requestAccounts_rejected_after_selection [OF prov wp feat disc' a b r])
next
  fix raw s1 accounts error s2
  assume h: "selecting \<and> eth_accounts c provider (wallet_state w) = (Resolved raw, s1)
        \<and> mapThrowing (getAddress c) raw = Inr accounts \<and> accounts \<noteq> []
        \<and> wallet_requestPermissions c provider s1 = (Rejected error, s2)
        \<and> (code error = Some 4001 \<or> code error = Some (- 32002))"
  then obtain features where feat: "target_features windowProvider = Some features"
      "''wallet_requestPermissions'' \<in> set features" and d: "disconnected"
    using sel by (cases "target_features windowProvider") auto
  from disc d have disc': "isDisconnected c w = Inr True" by simp
  from h have a: "eth_accounts c provider (wallet_state w) = (Resolved raw, s1)"
    and b: "mapThrowing (getAddress c) raw = Inr accounts" "accounts \<noteq> []"
    and r: "wallet_requestPermissions c provider s1 = (Rejected error, s2)"
    and cd: "code error = Some 4001 \<or> code error = Some (- 32002)"
    by simp_all
  show "connect c confirm chainId w =
          (Rejected (if code error = Some 4001
                     then UserRejectedRequestError (UserRejectedRequestError error)
                     else ResourceUnavailableRpcError error),
           w\<lparr>wallet_state := s2,
             requests := requests w @
               [(pid provider, Eth_accounts), (pid provider, Wallet_requestPermissions)]\<rparr>)"
    by (rule connect_permissions_rejected [OF prov wp feat disc' a b r cd])
next
  fix accounts w1 error s
  assume h: "connect_accounts c provider w = (Resolved accounts, w1)
        \<and> eth_chainId c provider (wallet_state w1) = (Rejected error, s)"
  then have a: "connect_accounts c provider w = (Resolved accounts, w1)"
    and r: "eth_chainId c provider (wallet_state w1) = (Rejected error, s)"
    by simp_all
  show "fst (connect c confirm chainId w) =
          Rejected (if code error = Some 4001 then UserRejectedRequestError error
                    else if code error = Some (- 32002) then ResourceUnavailableRpcError error
                    else error)"
    by (rule connect_chainId_rejected [OF prov a r])
next
  fix err w'
  assume "connect c confirm chainId w = (Rejected err, w')"
  from connect_storage [OF this] show "storage w' = storage w"
    by simp
qed

text \<open>
  The statement does not hold for every request of a \<open>connect\<close> call: the errors of the
  chain switch are caught. Here the wallet rejects \<open>wallet_switchEthereumChain\<close> with
  code 4001, and \<open>connect\<close> resolves with the chain the wallet is on and writes the entry.
\<close>

theorem connect_swallowed_rejection_counterexample:
  "wallet_switchEthereumChain (sim_config default_parameters [mainnet, goerli]) sim_provider ''0x5''
      (sim_wallet\<lparr>sim_switchError := ProviderError (Some 4001) None\<rparr>)
     = (Rejected (ProviderError (Some 4001) None),
        sim_wallet\<lparr>sim_switchError := ProviderError (Some 4001) None\<rparr>)
   \<and> fst (connect (sim_config default_parameters [mainnet, goerli]) NoChange (Some 5)
          (sim_world (Some sim_window) (Some Map.empty)
             (sim_wallet\<lparr>sim_switchError := ProviderError (Some 4001) None\<rparr>)))
     = Resolved \<lparr>conn_accounts = [''0xA0Cf798816D4b9b9866b5330EEa46a18382f251e''], conn_chainId = 1\<rparr>
   \<and> requests (snd (connect (sim_config default_parameters [mainnet, goerli]) NoChange (Some 5)
          (sim_world (Some sim_window) (Some Map.empty)
             (sim_wallet\<lparr>sim_switchError := ProviderError (Some 4001) None\<rparr>))))
     = [(1, Eth_requestAccounts), (1, Eth_chainId), (1, Wallet_switchEthereumChain ''0x5'')]
   \<and> storage (snd (connect (sim_config default_parameters [mainnet, goerli]) NoChange (Some 5)
          (sim_world (Some sim_window) (Some Map.empty)
             (sim_wallet\<lparr>sim_switchError := ProviderError (Some 4001) None\<rparr>))))
     = Some [''injected.connected'' \<mapsto> True]"
  by (simp add: sim_defs connect_defs mainnet_def goerli_def switchChain_def
        switchAndConfirm_def switchChain_catch_def)

text \<open>Three instances: the simulated wallet rejects \<open>eth_requestAccounts\<close> with code 4001;
  with the target \<open>metaMask\<close> and the shim saying disconnected, the wallet rejects
  \<open>wallet_requestPermissions\<close> with code -32002; the wallet rejects \<open>eth_chainId\<close> with
  code -32603.\<close>

theorem connect_provider_rejection_witness:
  "connect (sim_config default_parameters [mainnet, goerli]) NoChange None
      (sim_world (Some sim_window) (Some Map.empty) (sim_wallet\<lparr>sim_rejects := True\<rparr>))
     = (Rejected (UserRejectedRequestError (ProviderError (Some 4001) None)),
        (sim_world (Some sim_window) (Some Map.empty) (sim_wallet\<lparr>sim_rejects := True\<rparr>))
          \<lparr>requests := [(1, Eth_requestAccounts)]\<rparr>)
   \<and> fst (connect
          ((sim_config \<lparr>shimDisconnect = None, unstable_shimAsyncInject = None,
                        target = Some (TargetId ''metaMask'')\<rparr> [mainnet, goerli])
             \<lparr>wallet_requestPermissions :=
                \<lambda>p s. (Rejected (ProviderError (Some (- 32002)) None), s)\<rparr>)
          NoChange None (sim_world (Some sim_window) (Some Map.empty) sim_wallet))
     = Rejected (ResourceUnavailableRpcError (ProviderError (Some (- 32002)) None))
   \<and> fst (connect
          ((sim_config default_parameters [mainnet, goerli])
             \<lparr>eth_chainId := \<lambda>p s. (Rejected (ProviderError (Some (- 32603)) None), s)\<rparr>)
          NoChange None (sim_world (Some sim_window) (Some Map.empty) sim_wallet))
     = Rejected (ProviderError (Some (- 32603)) None)"
proof -
  let ?chs = "[mainnet, goerli]"
  let ?acct = "''0xA0Cf798816D4b9b9866b5330EEa46a18382f251e''"
  txt \<open>the account request is rejected with code 4001\<close>
  let ?c1 = "sim_config default_parameters ?chs"
  let ?w1 = "sim_world (Some sim_window) (Some Map.empty) (sim_wallet\<lparr>sim_rejects := True\<rparr>)"
  have p1: "getProvider (params ?c1) (win ?w1) = Inr (Some sim_provider)"
    and d1: "getWindowProvider (params ?c1) = Inr injected_descriptor"
    and i1: "isDisconnected ?c1 ?w1 = Inr True"
    by (simp_all add: sim_defs isDisconnected_def shim_def connectedKey_def)
  have s1: "False \<longleftrightarrow>
                (case target_features injected_descriptor of
                   None \<Rightarrow> False
                 | Some features \<Rightarrow> ''wallet_requestPermissions'' \<in> set features)
                \<and> True"
    by (simp add: injected_descriptor_def)
  have r1: "eth_requestAccounts ?c1 sim_provider (wallet_state ?w1)
              = (Rejected (ProviderError (Some 4001) None), sim_wallet\<lparr>sim_rejects := True\<rparr>)"
    by (simp add: sim_defs)
  have a: "connect ?c1 NoChange None ?w1
     = (Rejected (UserRejectedRequestError (ProviderError (Some 4001) None)),
        ?w1\<lparr>requests := [(1, Eth_requestAccounts)]\<rparr>)"
    using connect_provider_rejection [OF p1 d1 i1 s1, of NoChange None] r1
    by (simp add: sim_defs)
  txt \<open>the permission request is rejected with code -32002\<close>
  let ?c2 = "(sim_config \<lparr>shimDisconnect = None, unstable_shimAsyncInject = None,
                        target = Some (TargetId ''metaMask'')\<rparr> ?chs)
             \<lparr>wallet_requestPermissions :=
                \<lambda>p s. (Rejected (ProviderError (Some (- 32002)) None), s)\<rparr>"
  let ?w2 = "sim_world (Some sim_window) (Some Map.empty) sim_wallet"
  let ?mm = "\<lparr>target_id = ''metaMask'', target_name = ''MetaMask'',
              target_provider = Resolver metaMask_provider,
              target_features = Some [''wallet_requestPermissions'']\<rparr>"
  have d2: "getWindowProvider (params ?c2) = Inr ?mm"
    by (simp add: sim_config_def getWindowProvider_def stringTarget_def targetMap_def)
  have p2: "getProvider (params ?c2) (win ?w2) = Inr (Some sim_provider)"
    by (simp add: sim_config_def sim_world_def sim_window_def sim_provider_def getProvider_def
          getWindowProvider_def stringTarget_def targetMap_def metaMask_provider_def
          findProvider_def metaMask_condition_def metaMask_flags_def)
  have i2: "isDisconnected ?c2 ?w2 = Inr True"
    using d2 by (simp add: isDisconnected_def shim_def connectedKey_def sim_config_def sim_world_def)
  have s2: "True \<longleftrightarrow>
                (case target_features ?mm of
                   None \<Rightarrow> False
                 | Some features \<Rightarrow> ''wallet_requestPermissions'' \<in> set features)
                \<and> True"
    by simp
  have "eth_accounts ?c2 sim_provider (wallet_state ?w2) = (Resolved [?acct], sim_wallet)
      \<and> mapThrowing (getAddress ?c2) [?acct] = Inr [?acct] \<and> [?acct] \<noteq> []
      \<and> wallet_requestPermissions ?c2 sim_provider sim_wallet
           = (Rejected (ProviderError (Some (- 32002)) None), sim_wallet)
      \<and> (code (ProviderError (Some (- 32002)) None) = Some 4001
          \<or> code (ProviderError (Some (- 32002)) None) = Some (- 32002))"
    by (simp add: sim_config_def sim_world_def sim_wallet_def mapThrowing_def)
  then have b: "fst (connect ?c2 NoChange None ?w2)
      = Rejected (ResourceUnavailableRpcError (ProviderError (Some (- 32002)) None))"
    using connect_provider_rejection [OF p2 d2 i2 s2, of NoChange None]
    by auto
  txt \<open>the chain id request is rejected with code -32603\<close>
  let ?c3 = "(sim_config default_parameters ?chs)
             \<lparr>eth_chainId := \<lambda>p s. (Rejected (ProviderError (Some (- 32603)) None), s)\<rparr>"
  have p3: "getProvider (params ?c3) (win ?w2) = Inr (Some sim_provider)"
    and d3: "getWindowProvider (params ?c3) = Inr injected_descriptor"
    and i3: "isDisconnected ?c3 ?w2 = Inr True"
    by (simp_all add: sim_defs isDisconnected_def shim_def connectedKey_def)
  have "fst (connect_accounts ?c3 sim_provider ?w2) = Resolved [?acct]"
    by (simp add: sim_defs connect_accounts_def isDisconnected_def shim_def connectedKey_def
          hasLength_def request_def lift_def)
  then have acc: "connect_accounts ?c3 sim_provider ?w2
      = (Resolved [?acct], snd (connect_accounts ?c3 sim_provider ?w2))"
    by (metis prod.collapse)
  have r3: "eth_chainId ?c3 sim_provider (wallet_state (snd (connect_accounts ?c3 sim_provider ?w2)))
      = (Rejected (ProviderError (Some (- 32603)) None),
         wallet_state (snd (connect_accounts ?c3 sim_provider ?w2)))"
    by (simp add: sim_config_def)
  have c: "fst (connect ?c3 NoChange None ?w2) = Rejected (ProviderError (Some (- 32603)) None)"
    using connect_provider_rejection [OF p3 d3 i3 s1, of NoChange None] acc r3
    by auto
  from a b c show ?thesis
    by blast
qed

subsection \<open>The shim in the storage\<close>

lemma setup_connector_storage [simp]: "storage (snd (setup_connector c w)) = storage w"
  by (simp add: setup_connector_def bound_def split: sum.splits option.splits)

lemma handleEthereum_storage [simp]: "storage (snd (handleEthereum c k w)) = storage w"
  by (simp add: handleEthereum_def removeEventListener_def split: sum.splits)

lemma injectionRace_storage [simp]: "storage (snd (injectionRace c r w)) = storage w"
  by (simp add: injectionRace_def addEventListener_def dispatched_def split: race.splits)

lemma isAuthorized_storage [simp]: "storage (snd (isAuthorized c r w)) = storage w"
  unfolding isAuthorized_def isAuthorized_try_def
  by (intro catch_storage)
     (auto split: sum.splits bool.splits option.splits intro!: await_storage)

lemma onDisconnect_storage [simp]: "storage (snd (onDisconnect c error w)) = storage w"
  unfolding onDisconnect_def
  by (auto split: sum.splits option.splits intro!: await_storage)

lemma onChainChanged_storage [simp]: "storage (snd (onChainChanged c chain w)) = storage w"
  by (simp add: onChainChanged_def split: sum.splits)

lemma upd_fixed: "m = m(k := v) \<Longrightarrow> m k = v"
  by (metis fun_upd_same)

lemma upd_eq: "m(k := a) = m(k := b) \<Longrightarrow> a = b"
  by (metis fun_upd_same)

lemma shimAdded_changes [simp]: "\<not> shimAdded c S S"
  by (auto simp add: shimAdded_def split: option.splits sum.splits dest: upd_fixed)

lemma shimRemoved_changes [simp]: "\<not> shimRemoved c S S"
  by (auto simp add: shimRemoved_def split: option.splits sum.splits dest: upd_fixed)

lemma shimAdded_not_removed: "shimAdded c S S' \<Longrightarrow> \<not> shimRemoved c S S'"
  by (auto simp add: shimAdded_def shimRemoved_def split: option.splits sum.splits dest: upd_eq)

lemma onConnect_storage:
  "storage (snd (onConnect c chainId w)) = storage w
   \<or> shimAdded c (storage w) (storage (snd (onConnect c chainId w)))"
proof (cases "getAccounts c w")
  case (Pair res w1)
  have s1: "storage w1 = storage w"
    using getAccounts_storage [of c w] Pair by simp
  show ?thesis
  proof (cases res)
    case (Resolved accounts)
    show ?thesis
    proof (cases "accounts = []")
      case True
      with Pair Resolved s1 show ?thesis by (simp add: onConnect_def)
    next
      case False
      show ?thesis
      proof (cases "normalizeChainId c chainId")
        case (Inl e)
        with Pair Resolved False s1 show ?thesis by (simp add: onConnect_def)
      next
        case (Inr n)
        show ?thesis
        proof (cases "getProvider (params c) (win (emit (EmitConnect accounts n) w1))")
          case (Inl e)
          with Pair Resolved False s1 \<open>normalizeChainId c chainId = Inr n\<close> show ?thesis
            by (simp add: onConnect_def)
        next
          case po: (Inr po)
          let ?w2 = "case po of None \<Rightarrow> emit (EmitConnect accounts n) w1
                     | Some p \<Rightarrow> listenConnected p (emit (EmitConnect accounts n) w1)"
          have s2: "storage ?w2 = storage w"
            using s1 by (simp split: option.splits)
          show ?thesis
          proof (cases "addShim c ?w2")
            case (Inl e)
            with Pair Resolved False Inr po s2 show ?thesis
              by (simp add: onConnect_def)
          next
            case w3: (Inr w3)
            with Pair Resolved False Inr po s2 addShim_storage [OF w3] show ?thesis
              by (auto simp add: onConnect_def)
          qed
        qed
      qed
    qed
  next
    case (Rejected e)
    with Pair s1 show ?thesis by (simp add: onConnect_def)
  next
    case Pending
    with Pair s1 show ?thesis by (simp add: onConnect_def)
  qed
qed

lemma onAccountsChanged_storage:
  "storage (snd (onAccountsChanged c accounts w)) = storage w
   \<or> accounts \<noteq> [] \<and> connectListenerCount w \<noteq> 0
      \<and> shimAdded c (storage w) (storage (snd (onAccountsChanged c accounts w)))"
proof (cases "accounts = []")
  case True
  then show ?thesis by (simp add: onAccountsChanged_def)
next
  case False
  show ?thesis
  proof (cases "connectListenerCount w = 0")
    case True
    with False show ?thesis by (simp add: onAccountsChanged_def split: sum.splits)
  next
    case nz: False
    obtain res w1 where g: "getChainId c w = (res, w1)" by (cases "getChainId c w")
    have s1: "storage w1 = storage w"
      using getChainId_storage [of c w] g by simp
    show ?thesis
      using False nz g s1 onConnect_storage [of c _ w1]
      by (cases res) (auto simp add: onAccountsChanged_def)
  qed
qed

lemma disconnect_storage:
  "storage (snd (disconnect c w)) = storage w
   \<or> shimRemoved c (storage w) (storage (snd (disconnect c w)))"
proof (cases "getProvider (params c) (win w)")
  case (Inl e)
  then show ?thesis by (simp add: disconnect_def withProvider_def)
next
  case (Inr po)
  show ?thesis
  proof (cases po)
    case None
    with Inr show ?thesis by (simp add: disconnect_def withProvider_def)
  next
    case (Some provider)
    show ?thesis
    proof (cases "removeShim c (listenDisconnected provider w)")
      case (Inl e)
      with Inr Some show ?thesis by (simp add: disconnect_def withProvider_def)
    next
      case w': (Inr w')
      with Inr Some removeShim_storage [OF w'] show ?thesis
        by (auto simp add: disconnect_def withProvider_def)
    qed
  qed
qed

lemma resolved_snd [simp]: "snd (resolved r) = snd r"
  by (cases r rule: resolved.cases) simp_all

lemma resolved_fst: "fst (resolved r) \<longleftrightarrow> (\<exists>x. fst r = Resolved x)"
  by (cases r rule: resolved.cases) simp_all

text \<open>
  Claim C6. For every call into the connector: the call leaves the storage as it was, or
  adds the entry \<open>"<id>.connected"\<close>, or removes it. If it adds the entry, the call is a
  \<open>connect\<close> that resolved, or \<open>onConnect\<close>, or the branch of \<open>onAccountsChanged\<close> that
  calls \<open>onConnect\<close> (accounts given and a \<open>connect\<close> listener on the emitter). If it
  removes the entry, the call is \<open>disconnect\<close>. The handler \<open>onDisconnect\<close> leaves the
  storage as it was. This holds whether or not \<open>shimDisconnect\<close> is enabled.
\<close>

theorem shim_storage_changes:
  assumes "exec c call w = (ok, w')"
  shows "(storage w' = storage w
          \<or> shimAdded c (storage w) (storage w') \<or> shimRemoved c (storage w) (storage w'))
       \<and> (shimAdded c (storage w) (storage w') \<longrightarrow>
            (\<exists>confirm chainId. call = Call_connect confirm chainId \<and> ok)
          \<or> (\<exists>chainId. call = Call_onConnect chainId)
          \<or> (\<exists>accounts. call = Call_onAccountsChanged accounts
                \<and> accounts \<noteq> [] \<and> connectListenerCount w \<noteq> 0))
       \<and> (shimRemoved c (storage w) (storage w') \<longrightarrow> call = Call_disconnect)
       \<and> (\<forall>error. call = Call_onDisconnect error \<longrightarrow> storage w' = storage w)"
proof -
  have w': "w' = snd (exec c call w)" and ok: "ok = fst (exec c call w)"
    using assms by simp_all
  show ?thesis
  proof (cases call)
    case (Call_connect confirm chainId)
    obtain res w1 where run: "connect c confirm chainId w = (res, w1)"
      by (cases "connect c confirm chainId w")
    from connect_storage [OF run] run Call_connect show ?thesis
      unfolding w' ok
      by (cases res) (auto dest: shimAdded_not_removed)
  next
    case Call_disconnect
    with disconnect_storage [of c w] show ?thesis
      unfolding w' ok by (auto dest: shimAdded_not_removed)
  next
    case (Call_onAccountsChanged accounts)
    with onAccountsChanged_storage [of c accounts w] show ?thesis
      unfolding w' ok by (auto dest: shimAdded_not_removed)
  next
    case (Call_onConnect chainId)
    with onConnect_storage [of c chainId w] show ?thesis
      unfolding w' ok by (auto dest: shimAdded_not_removed)
  qed (simp_all add: w' ok)
qed

text \<open>With the simulated wallet: \<open>connect\<close> on an empty storage adds the entry and has
  resolved; \<open>onDisconnect\<close> on a storage with the entry keeps it.\<close>

theorem shim_storage_changes_witness:
  "shimAdded (sim_config default_parameters [mainnet, goerli])
      (storage (sim_world (Some sim_window) (Some Map.empty) sim_wallet))
      (storage (snd (exec (sim_config default_parameters [mainnet, goerli])
                       (Call_connect NoChange None)
                       (sim_world (Some sim_window) (Some Map.empty) sim_wallet))))
   \<and> fst (exec (sim_config default_parameters [mainnet, goerli]) (Call_connect NoChange None)
           (sim_world (Some sim_window) (Some Map.empty) sim_wallet))
   \<and> storage (snd (exec (sim_config default_parameters [mainnet, goerli])
                     (Call_onDisconnect None)
                     (sim_world (Some sim_window) (Some [''injected.connected'' \<mapsto> True]) sim_wallet)))
     = Some [''injected.connected'' \<mapsto> True]"
proof -
  let ?c = "sim_config default_parameters [mainnet, goerli]"
  let ?w = "sim_world (Some sim_window) (Some Map.empty) sim_wallet"
  let ?v = "sim_world (Some sim_window) (Some [''injected.connected'' \<mapsto> True]) sim_wallet"
  have "storage (snd (connect ?c NoChange None ?w)) = Some [''injected.connected'' \<mapsto> True]"
    by (simp add: sim_defs connect_defs)
  then have added: "shimAdded ?c (storage ?w) (storage (snd (exec ?c (Call_connect NoChange None) ?w)))"
    by (simp add: shimAdded_def connectedKey_def sim_defs)
  have run: "exec ?c (Call_connect NoChange None) ?w
      = (fst (exec ?c (Call_connect NoChange None) ?w), snd (exec ?c (Call_connect NoChange None) ?w))"
    by (rule prod.collapse [symmetric])
  have ok: "fst (exec ?c (Call_connect NoChange None) ?w)"
    using shim_storage_changes [OF run] added by blast
  have run': "exec ?c (Call_onDisconnect None) ?v
      = (fst (exec ?c (Call_onDisconnect None) ?v), snd (exec ?c (Call_onDisconnect None) ?v))"
    by (rule prod.collapse [symmetric])
  have "storage (snd (exec ?c (Call_onDisconnect None) ?v)) = storage ?v"
    using shim_storage_changes [OF run'] by blast
  with added ok show ?thesis
    by (simp add: sim_world_def)
qed


subsection \<open>isAuthorized\<close>

lemma isAuthorized_not_rejected: "fst (isAuthorized c r w) \<noteq> Rejected e"
  unfolding isAuthorized_def
  by (cases "isAuthorized_try c r w" rule: resolved.cases) simp_all

lemma isAuthorized_disconnected:
  assumes "isDisconnected c w = Inr True"
  shows "isAuthorized c r w = (Resolved False, w)"
  using assms by (simp add: isAuthorized_def isAuthorized_try_def)

lemma isAuthorized_key_error:
  assumes "isDisconnected c w = Inl e"
  shows "isAuthorized c r w = (Resolved False, w)"
  using assms by (simp add: isAuthorized_def isAuthorized_try_def)

lemma isAuthorized_shim_absent:
  assumes "shim c"
    and "\<forall>items key. storage w = Some items \<and> connectedKey c = Inr key \<longrightarrow> items key \<noteq> Some True"
  shows "isAuthorized c r w = (Resolved False, w)"
proof (cases "isDisconnected c w")
  case (Inl e)
  then show ?thesis by (rule isAuthorized_key_error)
next
  case (Inr b)
  have "b"
    using Inr assms
    by (auto simp add: isDisconnected_def split: option.splits sum.splits)
  with Inr show ?thesis by (simp add: isAuthorized_disconnected)
qed

lemma isAuthorized_no_accounts:
  assumes "getProvider (params c) (win w) = Inr (Some provider)"
    and "eth_accounts c provider (wallet_state w) = (Resolved [], s)"
  shows "fst (isAuthorized c r w) = Resolved False"
proof (cases "isDisconnected c w")
  case (Inl e)
  then show ?thesis by (simp add: isAuthorized_key_error)
next
  case (Inr b)
  with assms getAccounts_empty [OF assms] show ?thesis
    by (cases b) (simp_all add: isAuthorized_def isAuthorized_try_def)
qed

lemma isAuthorized_after_disconnect:
  assumes "shim c" and "disconnect c w0 = (Resolved (), w)"
  shows "isAuthorized c r w = (Resolved False, w)"
proof -
  obtain provider where w: "removeShim c (listenDisconnected provider w0) = Inr w"
    using assms(2)
    by (auto simp add: disconnect_def withProvider_def split: sum.splits option.splits)
  have "\<forall>items key. storage w = Some items \<and> connectedKey c = Inr key \<longrightarrow> items key \<noteq> Some True"
    using w assms(1)
    by (auto simp add: removeShim_def split: option.splits sum.splits)
  with assms(1) show ?thesis by (rule isAuthorized_shim_absent)
qed

lemma isAuthorized_accounts_rejected:
  assumes "getProvider (params c) (win w) = Inr (Some provider)"
    and "eth_accounts c provider (wallet_state w) = (Rejected e, s)"
  shows "fst (isAuthorized c r w) = Resolved False"
proof (cases "isDisconnected c w")
  case (Inl e')
  then show ?thesis by (simp add: isAuthorized_key_error)
next
  case (Inr b)
  with assms show ?thesis
    by (cases b)
       (simp_all add: isAuthorized_def isAuthorized_try_def getAccounts_def withProvider_def
          request_def)
qed

lemma isAuthorized_address_refused:
  assumes "getProvider (params c) (win w) = Inr (Some provider)"
    and "eth_accounts c provider (wallet_state w) = (Resolved raw, s)"
    and "mapThrowing (getAddress c) raw = Inl e"
  shows "fst (isAuthorized c r w) = Resolved False"
proof (cases "isDisconnected c w")
  case (Inl e')
  then show ?thesis by (simp add: isAuthorized_key_error)
next
  case (Inr b)
  with assms show ?thesis
    by (cases b)
       (simp_all add: isAuthorized_def isAuthorized_try_def getAccounts_def withProvider_def
          request_def lift_def)
qed

lemma isAuthorized_provider_throws:
  assumes "getProvider (params c) (win w) = Inl e"
  shows "fst (isAuthorized c r w) = Resolved False"
proof (cases "isDisconnected c w")
  case (Inl e')
  then show ?thesis by (simp add: isAuthorized_key_error)
next
  case (Inr b)
  with assms show ?thesis
    by (cases b) (simp_all add: isAuthorized_def isAuthorized_try_def)
qed

lemma isAuthorized_no_provider:
  assumes "getProvider (params c) (win w) = Inr None" and "\<not> asyncInjectEnabled c"
  shows "fst (isAuthorized c r w) = Resolved False"
proof (cases "isDisconnected c w")
  case (Inl e')
  then show ?thesis by (simp add: isAuthorized_key_error)
next
  case (Inr b)
  with assms show ?thesis
    by (cases b) (simp_all add: isAuthorized_def isAuthorized_try_def)
qed

lemma injectionRace_recheck:
  assumes "r = EventFirst window' \<or> r = TimeoutFirst window'"
  shows "fst (injectionRace c r w) =
           lift (case getProvider (params c) (if win w = None then None else Some window') of
                   Inl e \<Rightarrow> Inl e
                 | Inr provider \<Rightarrow> Inr (provider \<noteq> None))"
    and "requests (snd (injectionRace c r w)) = requests w"
  using assms
  by (auto simp add: injectionRace_def handleEthereum_def addEventListener_def
        removeEventListener_def dispatched_def lift_def split: sum.splits)

lemma isAuthorized_recheck_none:
  assumes none: "getProvider (params c) (win w) = Inr None"
    and r: "r = EventFirst window' \<or> r = TimeoutFirst window'"
    and still: "\<forall>provider. getProvider (params c) (Some window') \<noteq> Inr (Some provider)"
  shows "fst (isAuthorized c r w) = Resolved False"
proof (cases "isDisconnected c w")
  case (Inl e')
  then show ?thesis by (simp add: isAuthorized_key_error)
next
  case (Inr b)
  show ?thesis
  proof (cases b)
    case True
    with Inr show ?thesis by (simp add: isAuthorized_disconnected)
  next
    case False
    have "getProvider (params c) None = Inr None"
      by (simp add: getProvider_def)
    with still have
      "fst (injectionRace c r w) = Resolved False \<or> (\<exists>e. fst (injectionRace c r w) = Rejected e)"
      unfolding injectionRace_recheck(1) [OF r]
      by (cases "getProvider (params c) (Some window')")
         (auto simp add: lift_def split: sum.splits option.splits)
    then show ?thesis
      using Inr False none
      by (cases "injectionRace c r w")
         (auto simp add: isAuthorized_def isAuthorized_try_def)
  qed
qed

lemma isAuthorized_recheck_found:
  assumes conn: "isDisconnected c w = Inr False"
    and none: "getProvider (params c) (win w) = Inr None"
    and window: "win w \<noteq> None"
    and enabled: "asyncInjectEnabled c"
    and r: "r = EventFirst window' \<or> r = TimeoutFirst window'"
    and found: "getProvider (params c) (Some window') = Inr (Some provider)"
  shows "fst (isAuthorized c r w) = Resolved True"
    and "requests (snd (isAuthorized c r w)) = requests w"
proof -
  have "fst (injectionRace c r w) = Resolved True"
    unfolding injectionRace_recheck(1) [OF r] using window found by (auto simp add: lift_def)
  then obtain w1 where run: "injectionRace c r w = (Resolved True, w1)"
    by (metis prod.collapse)
  then have "requests w1 = requests w"
    using injectionRace_recheck(2) [OF r, of c w] by simp
  with run conn none enabled
  show "fst (isAuthorized c r w) = Resolved True"
    and "requests (snd (isAuthorized c r w)) = requests w"
    by (simp_all add: isAuthorized_def isAuthorized_try_def)
qed

text \<open>
  Claim C5, amended. \<open>isAuthorized\<close> never rejects. It resolves with \<open>false\<close>: when
  \<open>shimDisconnect\<close> is enabled and the storage, if there is one, does not hold the entry
  \<open>"<id>.connected"\<close>; when a provider is found at the start of the call and the wallet
  answers \<open>eth_accounts\<close> with the empty list, or rejects it, or \<open>getAddress\<close> throws on
  one of the addresses; when looking for the provider throws; when no provider is found
  and the detection of asynchronous injection is off, or its second look at the window
  finds no provider either; and, with \<open>shimDisconnect\<close> enabled, in every world that a
  resolved \<open>disconnect\<close> leaves, whatever the wallet would answer to \<open>eth_accounts\<close>.
  When the shim does not say disconnected, no provider is found at the start, the
  detection is on and its second look finds a provider, \<open>isAuthorized\<close> resolves with
  \<open>true\<close> and sends no request.
\<close>

theorem isAuthorized_resolves_false:
  "(\<forall>e. fst (isAuthorized c r w) \<noteq> Rejected e)
   \<and> (shim c
        \<and> (\<forall>items key. storage w = Some items \<and> connectedKey c = Inr key \<longrightarrow> items key \<noteq> Some True)
        \<longrightarrow> isAuthorized c r w = (Resolved False, w))
   \<and> (\<forall>provider s. getProvider (params c) (win w) = Inr (Some provider)
        \<and> eth_accounts c provider (wallet_state w) = (Resolved [], s)
        \<longrightarrow> fst (isAuthorized c r w) = Resolved False)
   \<and> (\<forall>provider e s. getProvider (params c) (win w) = Inr (Some provider)
        \<and> eth_accounts c provider (wallet_state w) = (Rejected e, s)
        \<longrightarrow> fst (isAuthorized c r w) = Resolved False)
   \<and> (\<forall>provider raw s e. getProvider (params c) (win w) = Inr (Some provider)
        \<and> eth_accounts c provider (wallet_state w) = (Resolved raw, s)
        \<and> mapThrowing (getAddress c) raw = Inl e
        \<longrightarrow> fst (isAuthorized c r w) = Resolved False)
   \<and> (\<forall>e. getProvider (params c) (win w) = Inl e \<longrightarrow> fst (isAuthorized c r w) = Resolved False)
   \<and> (getProvider (params c) (win w) = Inr None \<and> \<not> asyncInjectEnabled c
        \<longrightarrow> fst (isAuthorized c r w) = Resolved False)
   \<and> (\<forall>window'. getProvider (params c) (win w) = Inr None
        \<and> (r = EventFirst window' \<or> r = TimeoutFirst window')
        \<and> (\<forall>provider. getProvider (params c) (Some window') \<noteq> Inr (Some provider))
        \<longrightarrow> fst (isAuthorized c r w) = Resolved False)
   \<and> (\<forall>window' provider. isDisconnected c w = Inr False
        \<and> getProvider (params c) (win w) = Inr None \<and> win w \<noteq> None \<and> asyncInjectEnabled c
        \<and> (r = EventFirst window' \<or> r = TimeoutFirst window')
        \<and> getProvider (params c) (Some window') = Inr (Some provider)
        \<longrightarrow> fst (isAuthorized c r w) = Resolved True
            \<and> requests (snd (isAuthorized c r w)) = requests w)
   \<and> (\<forall>w0. shim c \<and> disconnect c w0 = (Resolved (), w)
        \<longrightarrow> isAuthorized c r w = (Resolved False, w))"
proof (intro conjI allI impI)
  fix e show "fst (isAuthorized c r w) \<noteq> Rejected e"
    by (rule isAuthorized_not_rejected)
next
  assume "shim c
        \<and> (\<forall>items key. storage w = Some items \<and> connectedKey c = Inr key \<longrightarrow> items key \<noteq> Some True)"
  then show "isAuthorized c r w = (Resolved False, w)"
    using isAuthorized_shim_absent by blast
next
  fix provider s
  assume "getProvider (params c) (win w) = Inr (Some provider)
        \<and> eth_accounts c provider (wallet_state w) = (Resolved [], s)"
  then have found: "getProvider (params c) (win w) = Inr (Some provider)"
    and empty: "eth_accounts c provider (wallet_state w) = (Resolved [], s)"
    by simp_all
  show "fst (isAuthorized c r w) = Resolved False"
    by (rule isAuthorized_no_accounts [OF found empty])
next
  fix provider e s
  assume "getProvider (params c) (win w) = Inr (Some provider)
        \<and> eth_accounts c provider (wallet_state w) = (Rejected e, s)"
  then have found: "getProvider (params c) (win w) = Inr (Some provider)"
    and rej: "eth_accounts c provider (wallet_state w) = (Rejected e, s)"
    by simp_all
  show "fst (isAuthorized c r w) = Resolved False"
    by (rule isAuthorized_accounts_rejected [OF found rej])
next
  fix provider raw s e
  assume "getProvider (params c) (win w) = Inr (Some provider)
        \<and> eth_accounts c provider (wallet_state w) = (Resolved raw, s)
        \<and> mapThrowing (getAddress c) raw = Inl e"
  then have found: "getProvider (params c) (win w) = Inr (Some provider)"
    and raw: "eth_accounts c provider (wallet_state w) = (Resolved raw, s)"
    and thr: "mapThrowing (getAddress c) raw = Inl e"
    by simp_all
  show "fst (isAuthorized c r w) = Resolved False"
    by (rule isAuthorized_address_refused [OF found raw thr])
next
  fix e assume "getProvider (params c) (win w) = Inl e"
  then show "fst (isAuthorized c r w) = Resolved False"
    by (rule isAuthorized_provider_throws)
next
  assume "getProvider (params c) (win w) = Inr None \<and> \<not> asyncInjectEnabled c"
  then show "fst (isAuthorized c r w) = Resolved False"
    by (simp add: isAuthorized_no_provider)
next
  fix window'
  assume "getProvider (params c) (win w) = Inr None
        \<and> (r = EventFirst window' \<or> r = TimeoutFirst window')
        \<and> (\<forall>provider. getProvider (params c) (Some window') \<noteq> Inr (Some provider))"
  then have none: "getProvider (params c) (win w) = Inr None"
    and r: "r = EventFirst window' \<or> r = TimeoutFirst window'"
    and still: "\<forall>provider. getProvider (params c) (Some window') \<noteq> Inr (Some provider)"
    by simp_all
  show "fst (isAuthorized c r w) = Resolved False"
    by (rule isAuthorized_recheck_none [OF none r still])
next
  fix window' provider
  assume h: "isDisconnected c w = Inr False
        \<and> getProvider (params c) (win w) = Inr None \<and> win w \<noteq> None \<and> asyncInjectEnabled c
        \<and> (r = EventFirst window' \<or> r = TimeoutFirst window')
        \<and> getProvider (params c) (Some window') = Inr (Some provider)"
  then have conn: "isDisconnected c w = Inr False"
    and none: "getProvider (params c) (win w) = Inr None"
    and window: "win w \<noteq> None"
    and enabled: "asyncInjectEnabled c"
    and r: "r = EventFirst window' \<or> r = TimeoutFirst window'"
    and found: "getProvider (params c) (Some window') = Inr (Some provider)"
    by simp_all
  show "fst (isAuthorized c r w) = Resolved True"
    by (rule isAuthorized_recheck_found(1) [OF conn none window enabled r found])
  show "requests (snd (isAuthorized c r w)) = requests w"
    by (rule isAuthorized_recheck_found(2) [OF conn none window enabled r found])
next
  fix w0 assume "shim c \<and> disconnect c w0 = (Resolved (), w)"
  then show "isAuthorized c r w = (Resolved False, w)"
    using isAuthorized_after_disconnect by blast
qed

text \<open>
  The condition that the provider is found at the start is needed. Here the shim is on
  and the entry is in the storage, the window has no provider at first, the injection
  event comes with the provider of a wallet that has no accounts, and \<open>isAuthorized\<close>
  resolves with \<open>true\<close> without asking for the accounts.
\<close>

theorem isAuthorized_injected_without_accounts_counterexample:
  "eth_accounts
      (sim_config \<lparr>shimDisconnect = None, unstable_shimAsyncInject = Some (AsyncInjectBool True),
                   target = None\<rparr> [mainnet, goerli])
      sim_provider (sim_wallet\<lparr>sim_accounts := []\<rparr>)
     = (Resolved [], sim_wallet\<lparr>sim_accounts := []\<rparr>)
   \<and> fst (isAuthorized
          (sim_config \<lparr>shimDisconnect = None, unstable_shimAsyncInject = Some (AsyncInjectBool True),
                       target = None\<rparr> [mainnet, goerli])
          (EventFirst sim_window)
          (sim_world (Some empty_window) (Some [''injected.connected'' \<mapsto> True])
             (sim_wallet\<lparr>sim_accounts := []\<rparr>)))
     = Resolved True
   \<and> requests (snd (isAuthorized
          (sim_config \<lparr>shimDisconnect = None, unstable_shimAsyncInject = Some (AsyncInjectBool True),
                       target = None\<rparr> [mainnet, goerli])
          (EventFirst sim_window)
          (sim_world (Some empty_window) (Some [''injected.connected'' \<mapsto> True])
             (sim_wallet\<lparr>sim_accounts := []\<rparr>))))
     = []"
  by (simp add: isAuthorized_def isAuthorized_try_def isDisconnected_def shim_def connectedKey_def
        asyncInjectEnabled_def timeout_def injectionRace_def handleEthereum_def
        addEventListener_def removeEventListener_def dispatched_def
        sim_config_def sim_world_def sim_window_def sim_provider_def empty_window_def
        getProvider_def getWindowProvider_def injected_descriptor_def)

text \<open>With the simulated wallet and the entry in the storage: \<open>isAuthorized\<close> resolves
  with \<open>true\<close>, \<open>disconnect\<close> resolves, and \<open>isAuthorized\<close> after it resolves with \<open>false\<close>;
  so it does for a wallet without accounts and for a wallet that rejects \<open>eth_accounts\<close>.\<close>

theorem isAuthorized_resolves_false_witness:
  "fst (isAuthorized (sim_config default_parameters [mainnet, goerli]) (TimeoutFirst sim_window)
          (sim_world (Some sim_window) (Some [''injected.connected'' \<mapsto> True]) sim_wallet))
     = Resolved True
   \<and> fst (disconnect (sim_config default_parameters [mainnet, goerli])
          (sim_world (Some sim_window) (Some [''injected.connected'' \<mapsto> True]) sim_wallet))
     = Resolved ()
   \<and> fst (isAuthorized (sim_config default_parameters [mainnet, goerli]) (TimeoutFirst sim_window)
          (snd (disconnect (sim_config default_parameters [mainnet, goerli])
             (sim_world (Some sim_window) (Some [''injected.connected'' \<mapsto> True]) sim_wallet))))
     = Resolved False
   \<and> fst (isAuthorized (sim_config default_parameters [mainnet, goerli]) (TimeoutFirst sim_window)
          (sim_world (Some sim_window) (Some [''injected.connected'' \<mapsto> True])
             (sim_wallet\<lparr>sim_accounts := []\<rparr>)))
     = Resolved False
   \<and> fst (isAuthorized
          ((sim_config default_parameters [mainnet, goerli])
             \<lparr>eth_accounts := \<lambda>p s. (Rejected (ProviderError (Some (- 32603)) None), s)\<rparr>)
          (TimeoutFirst sim_window)
          (sim_world (Some sim_window) (Some [''injected.connected'' \<mapsto> True]) sim_wallet))
     = Resolved False"
proof -
  let ?c = "sim_config default_parameters [mainnet, goerli]"
  let ?r = "TimeoutFirst sim_window"
  let ?w = "sim_world (Some sim_window) (Some [''injected.connected'' \<mapsto> True]) sim_wallet"
  have before: "fst (isAuthorized ?c ?r ?w) = Resolved True"
    by (simp add: sim_defs isAuthorized_def isAuthorized_try_def isDisconnected_def shim_def
          connectedKey_def getAccounts_def withProvider_def request_def lift_def)
  txt \<open>after \<open>disconnect\<close>\<close>
  have disc: "fst (disconnect ?c ?w) = Resolved ()"
    by (simp add: sim_defs disconnect_def withProvider_def removeShim_def shim_def
          connectedKey_def)
  then have run: "disconnect ?c ?w = (Resolved (), snd (disconnect ?c ?w))"
    by (metis prod.collapse)
  have "shim ?c"
    by (simp add: shim_def sim_defs)
  with run isAuthorized_resolves_false [of ?c ?r "snd (disconnect ?c ?w)"]
  have "isAuthorized ?c ?r (snd (disconnect ?c ?w)) = (Resolved False, snd (disconnect ?c ?w))"
    by blast
  then have after: "fst (isAuthorized ?c ?r (snd (disconnect ?c ?w))) = Resolved False"
    by simp
  txt \<open>a wallet without accounts\<close>
  let ?v = "sim_world (Some sim_window) (Some [''injected.connected'' \<mapsto> True])
              (sim_wallet\<lparr>sim_accounts := []\<rparr>)"
  have "getProvider (params ?c) (win ?v) = Inr (Some sim_provider)
        \<and> eth_accounts ?c sim_provider (wallet_state ?v) = (Resolved [], sim_wallet\<lparr>sim_accounts := []\<rparr>)"
    by (simp add: sim_defs)
  with isAuthorized_resolves_false [of ?c ?r ?v]
  have empty: "fst (isAuthorized ?c ?r ?v) = Resolved False"
    by blast
  txt \<open>a wallet that rejects \<open>eth_accounts\<close>\<close>
  let ?d = "?c\<lparr>eth_accounts := \<lambda>p s. (Rejected (ProviderError (Some (- 32603)) None), s)\<rparr>"
  have "getProvider (params ?d) (win ?w) = Inr (Some sim_provider)
        \<and> eth_accounts ?d sim_provider (wallet_state ?w)
            = (Rejected (ProviderError (Some (- 32603)) None), sim_wallet)"
    by (simp add: sim_defs)
  with isAuthorized_resolves_false [of ?d ?r ?w]
  have rejected: "fst (isAuthorized ?d ?r ?w) = Resolved False"
    by blast
  from before disc after empty rejected show ?thesis
    by blast
qed

subsection \<open>The listener for the injection event\<close>

text \<open>What the race leaves on the window: when the timer runs \<open>handleEthereum\<close> first,
  the arrow function registered for \<open>ethereum#initialized\<close> is still registered, since
  \<open>removeEventListener\<close> is given \<open>handleEthereum\<close>, which was never registered; when the
  event comes first, the \<open>once\<close> option has removed it.\<close>

lemma injectionRace_timeout:
  assumes "win w = Some window0" and "getProvider (params c) (Some window') = Inr po"
  shows "injectionRace c (TimeoutFirst window') w =
           (Resolved (po \<noteq> None),
            w\<lparr>win := Some window', closures := Suc (Suc (closures w)),
              timeouts := timeouts w @ [timeout c],
              windowListeners :=
                filter (\<lambda>(type', h', once).
                          \<not> (type' = ''ethereum#initialized'' \<and> h' = HandleEthereum (closures w)))
                  (windowListeners w)
                @ [(''ethereum#initialized'', InitializedWrapper (Suc (closures w)), True)]\<rparr>)"
  using assms
  by (simp add: injectionRace_def handleEthereum_def addEventListener_def removeEventListener_def)

lemma injectionRace_event:
  assumes "win w = Some window0" and "getProvider (params c) (Some window') = Inr po"
  shows "injectionRace c (EventFirst window') w =
           (Resolved (po \<noteq> None),
            w\<lparr>win := Some window', closures := Suc (Suc (closures w)),
              timeouts := timeouts w @ [timeout c],
              windowListeners :=
                filter (\<lambda>(type', h', once).
                          \<not> (type' = ''ethereum#initialized'' \<and> h' = HandleEthereum (closures w)))
                  (filter (\<lambda>(type', h', once). \<not> (type' = ''ethereum#initialized'' \<and> once))
                     (windowListeners w))\<rparr>)"
  using assms
  by (simp add: injectionRace_def handleEthereum_def addEventListener_def removeEventListener_def
        dispatched_def)

text \<open>
  Claim C9. The claim is that the listener which \<open>isAuthorized\<close> registers on the window
  is gone when the race is over, whichever signal wins. With \<open>unstable_shimAsyncInject\<close>
  enabled, no provider and the timer first, \<open>isAuthorized\<close> resolves with \<open>false\<close> and the
  listener is still registered; a second such call leaves two. Only when the event comes
  first is nothing left.
\<close>

theorem isAuthorized_timeout_leaves_listener:
  "isAuthorized (sim_config asyncInject_parameters []) (TimeoutFirst empty_window)
      (sim_world (Some empty_window) None sim_wallet)
     = (Resolved False,
        (sim_world (Some empty_window) None sim_wallet)
          \<lparr>windowListeners := [(''ethereum#initialized'', InitializedWrapper 1, True)],
           timeouts := [1000], closures := 2\<rparr>)
   \<and> windowListeners (snd (isAuthorized (sim_config asyncInject_parameters []) (TimeoutFirst empty_window)
        (snd (isAuthorized (sim_config asyncInject_parameters []) (TimeoutFirst empty_window)
           (sim_world (Some empty_window) None sim_wallet)))))
     = [(''ethereum#initialized'', InitializedWrapper 1, True),
        (''ethereum#initialized'', InitializedWrapper 3, True)]
   \<and> windowListeners (snd (isAuthorized (sim_config asyncInject_parameters []) (EventFirst empty_window)
           (sim_world (Some empty_window) None sim_wallet)))
     = []"
  by (simp add: isAuthorized_def isAuthorized_try_def isDisconnected_def shim_def
        asyncInject_parameters_def asyncInjectEnabled_def timeout_def
        injectionRace_def handleEthereum_def addEventListener_def removeEventListener_def
        dispatched_def sim_config_def sim_world_def empty_window_def
        getProvider_def getWindowProvider_def injected_descriptor_def)

end
